theory Spec2Isabelle
  imports Main "HOL-Library.Multiset" "HOL-Library.Char_ord" "HOL-Library.List_Lexorder"
begin

section \<open>JavaScript values, objects and strings\<close>

text \<open>
  The values the wrapper handles. \<open>EMPTY_PROP\<close> is the module-private \<open>Symbol()\<close> of
  \<^verbatim>\<open>utils.ts\<close> (line 24), the default of every declared input. \<open>JFun\<close> is a function
  value, named by a number; what calling it does is given by an environment where it
  matters.
\<close>

datatype jsval = EMPTY_PROP | Undefined | Null | JBool bool | JNum int | JStr string | JFun nat

datatype error = TypeError string | Error string

text \<open>
  A plain object is an association list in insertion order. Reading a missing key gives
  \<open>undefined\<close>; \<open>for (key in obj)\<close> enumerates the keys; writing a key replaces the value
  in place or appends the key.
\<close>

type_synonym 'v obj = "(string \<times> 'v) list"

definition get_prop :: "jsval obj \<Rightarrow> string \<Rightarrow> jsval" where
  "get_prop ob key = (case map_of ob key of None \<Rightarrow> Undefined | Some v \<Rightarrow> v)"

definition hasOwnProperty :: "'v obj \<Rightarrow> string \<Rightarrow> bool" where
  "hasOwnProperty ob key = (map_of ob key \<noteq> None)"

definition keys_of :: "'v obj \<Rightarrow> string list" where
  "keys_of ob = map fst ob"

fun obj_set :: "string \<Rightarrow> 'v \<Rightarrow> 'v obj \<Rightarrow> 'v obj" where
  "obj_set k v [] = [(k, v)]"
| "obj_set k v ((k', v') # kvs) =
     (if k = k' then (k, v) # kvs else (k', v') # obj_set k v kvs)"

text \<open>\<open>String.prototype.startsWith\<close>.\<close>

definition startsWith :: "string \<Rightarrow> string \<Rightarrow> bool" where
  "startsWith s p = (take (length p) s = p)"

text \<open>
  \<open>String.prototype.split\<close> with a separator of one character: the pieces between the
  occurrences of the separator, empty pieces included; never the empty array.
\<close>

fun split :: "char \<Rightarrow> string \<Rightarrow> string list" where
  "split c [] = [[]]"
| "split c (x # xs) =
     (if x = c then [] # split c xs
      else (case split c xs of [] \<Rightarrow> [[x]] | w # ws \<Rightarrow> (x # w) # ws))"

text \<open>\<open>Array.prototype.join\<close> on an array of strings.\<close>

fun join :: "string \<Rightarrow> string list \<Rightarrow> string" where
  "join sep [] = []"
| "join sep [x] = x"
| "join sep (x # y # zs) = x @ sep @ join sep (y # zs)"

text \<open>\<open>Array.prototype.indexOf\<close>: the first index of the value, or \<open>-1\<close>.\<close>

fun indexOf :: "'a list \<Rightarrow> 'a \<Rightarrow> int" where
  "indexOf [] x = - 1"
| "indexOf (y # ys) x =
     (if y = x then 0 else (let r = indexOf ys x in if r < 0 then - 1 else r + 1))"

text \<open>\<open>Set.prototype.add\<close> on a set kept in insertion order.\<close>

definition set_add :: "'a \<Rightarrow> 'a list \<Rightarrow> 'a list" where
  "set_add x s = (if x \<in> set s then s else s @ [x])"

text \<open>The conversion of a computed property key: \<open>obj[undefined]\<close> reads the key "undefined".\<close>

definition prop_key :: "string option \<Rightarrow> string" where
  "prop_key k = (case k of None \<Rightarrow> ''undefined'' | Some p \<Rightarrow> p)"

text \<open>Truthiness of an optional string argument: \<open>undefined\<close> and the empty string are falsy.\<close>

definition truthy_str :: "string option \<Rightarrow> bool" where
  "truthy_str k = (case k of None \<Rightarrow> False | Some p \<Rightarrow> p \<noteq> [])"

section \<open>The Vue wrapper factory (vue-component-lib/utils.ts)\<close>

definition UPDATE_VALUE_EVENT :: string where
  "UPDATE_VALUE_EVENT = ''update:modelValue''"

definition MODEL_VALUE :: string where
  "MODEL_VALUE = ''modelValue''"

definition ROUTER_LINK_VALUE :: string where
  "ROUTER_LINK_VALUE = ''routerLink''"

definition ROUTER_PROP_PREFIX :: string where
  "ROUTER_PROP_PREFIX = ''router''"

definition ARIA_PROP_PREFIX :: string where
  "ARIA_PROP_PREFIX = ''aria''"

text \<open>
  A DOM event as the listeners use it: its type, the properties of its target element and
  the \<open>defaultPrevented\<close> flag. A listener is only ever called by the DOM with an event in
  dispatch, whose target is an element.
\<close>

record event =
  ev_type :: string
  target :: "jsval obj"
  defaultPrevented :: bool

text \<open>
  The arguments of \<open>defineContainer\<close>. \<open>modelUpdateEvent\<close> is declared a string and treated
  as a string or an array of strings (line 87).
\<close>

datatype event_names = OneName string | NameArray "string list"

record container_config =
  name :: string
  componentProps :: "string list list"
  modelProp :: "string option"
  modelUpdateEvent :: "event_names option"
  externalModelUpdateEvent :: "string option"

text \<open>\<open>const [componentProperties, componentCustomEvents] = componentProps\<close> (line 73).\<close>

definition componentProperties :: "container_config \<Rightarrow> string list option" where
  "componentProperties cfg =
     (case componentProps cfg of [] \<Rightarrow> None | ps # _ \<Rightarrow> Some ps)"

definition componentCustomEvents :: "container_config \<Rightarrow> string list option" where
  "componentCustomEvents cfg =
     (case componentProps cfg of [] \<Rightarrow> None | [_] \<Rightarrow> None | _ # es # _ \<Rightarrow> Some es)"

text \<open>
  What the wrapper does to the outside, in the order it does it: an output emitted through
  Vue's \<open>emit\<close> (with the value of the closure variable \<open>modelPropValue\<close> at the moment of
  the call, which is what a handler running inside that call finds cached), a call of a
  function value, a call of \<open>navManager.navigate\<close>, a \<open>console.warn\<close>.
\<close>

datatype payload = PVal jsval | PEvent event

datatype effect =
    Emit string payload jsval
  | Called nat event
  | Navigate "payload obj"
  | Warn string

text \<open>
  The mutable variables of one \<open>setup\<close> closure: \<open>modelPropValue\<close> (line 80), the set
  \<open>classes\<close> (line 82), and the log of effects.
\<close>

record wrapper =
  modelPropValue :: jsval
  classes :: "string list"
  effects :: "effect list"

definition emit :: "string \<Rightarrow> payload \<Rightarrow> wrapper \<Rightarrow> wrapper" where
  "emit out p st = st\<lparr>effects := effects st @ [Emit out p (modelPropValue st)]\<rparr>"

subsection \<open>Class lists (lines 31-43)\<close>

text \<open>
  \<open>(classes as string)?.split(' ') || []\<close>: \<open>?.\<close> stops at \<open>undefined\<close> and \<open>null\<close> only; a
  string has \<open>split\<close>, and its result, never empty, is truthy; any other value has no
  \<open>split\<close> method, and calling \<open>undefined\<close> raises a TypeError.
\<close>

definition getComponentClasses :: "jsval \<Rightarrow> error + string list" where
  "getComponentClasses cls =
     (case cls of
        Undefined \<Rightarrow> Inr []
      | Null \<Rightarrow> Inr []
      | JStr s \<Rightarrow> Inr (split (CHR '' '') s)
      | _ \<Rightarrow> Inl (TypeError ''classes.split is not a function''))"

text \<open>
  \<open>ref\<close> is \<open>ref.value?.classList\<close>: \<open>None\<close> while the element is not there, else its live
  class list.
\<close>

definition getElementClasses :: "string list option \<Rightarrow> string list \<Rightarrow> string list \<Rightarrow> string list" where
  "getElementClasses ref componentClasses defaultClasses =
     (let self = (case ref of None \<Rightarrow> [] | Some classList \<Rightarrow> classList) @ defaultClasses
      in map snd
           (filter (\<lambda>(i, c). c \<notin> set componentClasses \<and> indexOf self c = int i)
              (enumerate 0 self)))"

subsection \<open>Mount-time listeners (lines 83-124)\<close>

datatype listener = ModelUpdateListener | CustomEventListener string

text \<open>\<open>if (modelUpdateEvent)\<close>: an array is truthy, a string when not empty.\<close>

definition truthy_names :: "event_names option \<Rightarrow> bool" where
  "truthy_names ns =
     (case ns of None \<Rightarrow> False | Some (OneName s) \<Rightarrow> s \<noteq> [] | Some (NameArray _) \<Rightarrow> True)"

definition eventsNames :: "event_names option \<Rightarrow> string list" where
  "eventsNames ns =
     (case ns of None \<Rightarrow> [] | Some (OneName s) \<Rightarrow> [s] | Some (NameArray xs) \<Rightarrow> xs)"

text \<open>
  The listeners \<open>onVnodeBeforeMount\<close> adds to \<open>vnode.el\<close>, in the order of the
  \<open>addEventListener\<close> calls; \<open>el\<close> says whether \<open>vnode.el\<close> is there.
\<close>

definition onVnodeBeforeMount :: "container_config \<Rightarrow> bool \<Rightarrow> (string \<times> listener) list" where
  "onVnodeBeforeMount cfg el =
     (if el then
        (if truthy_names (modelUpdateEvent cfg)
         then map (\<lambda>eventName. (eventName, ModelUpdateListener)) (eventsNames (modelUpdateEvent cfg))
         else [])
        @ (case componentCustomEvents cfg of
             None \<Rightarrow> []
           | Some es \<Rightarrow> map (\<lambda>eventName. (eventName, CustomEventListener eventName)) es)
      else [])"

text \<open>The body of the model-update listener (lines 89-104).\<close>

definition modelUpdateListener :: "container_config \<Rightarrow> event \<Rightarrow> wrapper \<Rightarrow> wrapper" where
  "modelUpdateListener cfg e st =
     (let st1 = st\<lparr>modelPropValue := get_prop (target e) (prop_key (modelProp cfg))\<rparr>;
          st2 = emit UPDATE_VALUE_EVENT (PVal (modelPropValue st1)) st1
      in case externalModelUpdateEvent cfg of
           None \<Rightarrow> st2
         | Some ext \<Rightarrow> if ext \<noteq> [] then emit ext (PEvent e) st2 else st2)"

fun run_listener :: "container_config \<Rightarrow> listener \<Rightarrow> event \<Rightarrow> wrapper \<Rightarrow> wrapper" where
  "run_listener cfg ModelUpdateListener e st = modelUpdateListener cfg e st"
| "run_listener cfg (CustomEventListener eventName) e st = emit eventName (PEvent e) st"

text \<open>
  The DOM dispatching an event at the element: the listeners added for its type run in
  the order they were added.
\<close>

definition dispatchEvent :: "container_config \<Rightarrow> (string \<times> listener) list \<Rightarrow> event \<Rightarrow> wrapper \<Rightarrow> wrapper" where
  "dispatchEvent cfg ls e st =
     fold (\<lambda>l s. run_listener cfg l e s)
       (map snd (filter (\<lambda>(n, l). n = ev_type e) ls)) st"

subsection \<open>Router links (lines 126-146)\<close>

datatype NavManager = NavManager nat

text \<open>
  Lines 127-128: \<open>hasRouter\<close> is what the application context provides under
  \<open>navManager\<close>, and only when that is truthy is \<open>inject\<close> asked.
\<close>

definition resolve_navManager :: "NavManager option \<Rightarrow> NavManager option \<Rightarrow> NavManager option" where
  "resolve_navManager hasRouter injected =
     (case hasRouter of None \<Rightarrow> None | Some _ \<Rightarrow> injected)"

definition NO_ROUTER_WARNING :: string where
  "NO_ROUTER_WARNING =
     ''Tried to navigate, but no router was found. Make sure you have mounted Vue Router.''"

definition navigationPayload :: "jsval obj \<Rightarrow> event \<Rightarrow> payload obj" where
  "navigationPayload props ev =
     fold (\<lambda>key pl.
            let v = get_prop props key
            in if hasOwnProperty props key \<and> startsWith key ROUTER_PROP_PREFIX \<and> v \<noteq> EMPTY_PROP
               then obj_set key (PVal v) pl else pl)
       (keys_of props) [(''event'', PEvent ev)]"

definition handleRouterLink :: "jsval obj \<Rightarrow> NavManager option \<Rightarrow> event \<Rightarrow> wrapper \<Rightarrow> wrapper" where
  "handleRouterLink props navManager ev st =
     (if get_prop props ROUTER_LINK_VALUE = EMPTY_PROP then st
      else (case navManager of
              Some _ \<Rightarrow> st\<lparr>effects := effects st @ [Navigate (navigationPayload props ev)]\<rparr>
            | None \<Rightarrow> st\<lparr>effects := effects st @ [Warn NO_ROUTER_WARNING]\<rparr>))"

subsection \<open>The render function (lines 148-206)\<close>

text \<open>
  \<open>handleClick\<close> (lines 156-163), with \<open>oldClick\<close> the value of \<open>props.onClick\<close> the render
  captured. \<open>call f\<close> is what the function value \<open>f\<close> does to the event it is given (it may
  call \<open>preventDefault\<close>); calling a value that is no function raises a TypeError.
\<close>

definition handleClick ::
  "(nat \<Rightarrow> event \<Rightarrow> event) \<Rightarrow> jsval obj \<Rightarrow> NavManager option \<Rightarrow> jsval \<Rightarrow> event \<Rightarrow> wrapper
     \<Rightarrow> error + wrapper" where
  "handleClick call props navManager oldClick ev st =
     (let after = (\<lambda>ev' st'. if defaultPrevented ev' then st' else handleRouterLink props navManager ev' st')
      in case oldClick of
           Undefined \<Rightarrow> Inr (after ev st)
         | JFun f \<Rightarrow> Inr (after (call f ev) (st\<lparr>effects := effects st @ [Called f ev]\<rparr>))
         | _ \<Rightarrow> Inl (TypeError ''oldClick is not a function''))"

text \<open>Successive clicks on the element, each handled by \<open>handleClick\<close>; an exception
  ends the run.\<close>

fun clicks ::
  "(nat \<Rightarrow> event \<Rightarrow> event) \<Rightarrow> jsval obj \<Rightarrow> NavManager option \<Rightarrow> jsval \<Rightarrow> event list \<Rightarrow> wrapper
     \<Rightarrow> error + wrapper" where
  "clicks call props navManager oldClick [] st = Inr st"
| "clicks call props navManager oldClick (ev # evs) st =
     (case handleClick call props navManager oldClick ev st of
        Inl err \<Rightarrow> Inl err
      | Inr st' \<Rightarrow> clicks call props navManager oldClick evs st')"

text \<open>The values of the properties handed to \<open>h\<close>.\<close>

datatype prop_out =
    ORef
  | OClass "string list"
  | OHandleClick jsval
  | OBeforeMount
  | OVal jsval

record vnode =
  tag :: string
  vprops :: "prop_out obj"

text \<open>Lines 165-170: the properties every render starts from.\<close>

definition propsToAdd_initial :: "string list \<Rightarrow> jsval \<Rightarrow> prop_out obj" where
  "propsToAdd_initial merged oldClick =
     [(''ref'', ORef), (''class'', OClass merged),
      (''onClick'', OHandleClick oldClick), (''onVnodeBeforeMount'', OBeforeMount)]"

text \<open>Lines 151-153 and 167: the class set grows by the class attribute, then the element's
  classes are merged.\<close>

definition render_classes ::
  "jsval \<Rightarrow> string list option \<Rightarrow> wrapper \<Rightarrow> error + (wrapper \<times> string list)" where
  "render_classes attrs_class containerRef st =
     (case getComponentClasses attrs_class of
        Inl err \<Rightarrow> Inl err
      | Inr vs \<Rightarrow>
          (let st' = st\<lparr>classes := fold set_add vs (classes st)\<rparr>
           in Inr (st', getElementClasses containerRef (classes st') [])))"

text \<open>Lines 178-183: the inputs forwarded to the element.\<close>

definition forward_props :: "jsval obj \<Rightarrow> prop_out obj \<Rightarrow> prop_out obj" where
  "forward_props props propsToAdd =
     fold (\<lambda>key acc.
            let v = get_prop props key
            in if (hasOwnProperty props key \<and> v \<noteq> EMPTY_PROP) \<or> startsWith key ARIA_PROP_PREFIX
               then obj_set key (OVal v) acc else acc)
       (keys_of props) propsToAdd"

text \<open>Lines 185-203: the model property.\<close>

definition model_precedence ::
  "container_config \<Rightarrow> jsval obj \<Rightarrow> jsval \<Rightarrow> prop_out obj \<Rightarrow> prop_out obj" where
  "model_precedence cfg props cached propsToAdd =
     (if truthy_str (modelProp cfg) then
        (if get_prop props MODEL_VALUE \<noteq> EMPTY_PROP
         then obj_set (prop_key (modelProp cfg)) (OVal (get_prop props MODEL_VALUE)) propsToAdd
         else if cached \<noteq> EMPTY_PROP
         then obj_set (prop_key (modelProp cfg)) (OVal cached) propsToAdd
         else propsToAdd)
      else propsToAdd)"

text \<open>
  One call of the render function: the new values of the closure variables and the vnode
  (the slot content, passed through unchanged, is left out). An exception leaves the
  render without a vnode.
\<close>

definition render ::
  "container_config \<Rightarrow> jsval obj \<Rightarrow> jsval \<Rightarrow> string list option \<Rightarrow> wrapper
     \<Rightarrow> error + (wrapper \<times> vnode)" where
  "render cfg props attrs_class containerRef st =
     (let st1 = st\<lparr>modelPropValue := get_prop props (prop_key (modelProp cfg))\<rparr>
      in case render_classes attrs_class containerRef st1 of
           Inl err \<Rightarrow> Inl err
         | Inr (st2, merged) \<Rightarrow>
             (let oldClick = get_prop props ''onClick'';
                  propsToAdd = propsToAdd_initial merged oldClick
              in Inr (st2,
                   \<lparr>tag = name cfg,
                    vprops = model_precedence cfg props (modelPropValue st2)
                               (forward_props props propsToAdd)\<rparr>)))"

text \<open>The start of \<open>setup\<close> (lines 80-82): the closure variables before the first render.\<close>

definition container_setup :: "container_config \<Rightarrow> jsval obj \<Rightarrow> jsval \<Rightarrow> error + wrapper" where
  "container_setup cfg props attrs_class =
     (case getComponentClasses attrs_class of
        Inl err \<Rightarrow> Inl err
      | Inr vs \<Rightarrow>
          Inr \<lparr>modelPropValue = get_prop props (prop_key (modelProp cfg)),
               classes = fold set_add vs [],
               effects = []\<rparr>)"

subsection \<open>A click on the rendered element\<close>

text \<open>
  Vue makes the \<open>onClick\<close> property of the vnode a click listener of the element. That
  property is \<open>handleClick\<close> as the render built it, or whatever value has taken its
  place: a function is called with the event, any other value is not called. Listeners
  that Vue adds from attributes the wrapper does not declare are not part of the vnode
  the render returns, and are left out here.
\<close>

definition click_vnode ::
  "(nat \<Rightarrow> event \<Rightarrow> event) \<Rightarrow> jsval obj \<Rightarrow> NavManager option \<Rightarrow> vnode \<Rightarrow> event \<Rightarrow> wrapper
     \<Rightarrow> error + wrapper" where
  "click_vnode call props navManager vn ev st =
     (case map_of (vprops vn) ''onClick'' of
        Some (OHandleClick oldClick) \<Rightarrow> handleClick call props navManager oldClick ev st
      | Some (OVal (JFun f)) \<Rightarrow> Inr (st\<lparr>effects := effects st @ [Called f ev]\<rparr>)
      | _ \<Rightarrow> Inr st)"

section \<open>The React proxy generator (react-library-output/src/output-react.ts)\<close>

definition NL :: string where
  "NL = [CHR 0x0A]"

definition QUOTE :: string where
  "QUOTE = [CHR 0x27]"

definition GENERATED_DTS :: string where
  "GENERATED_DTS = ''components.d.ts''"

definition IMPORT_TYPES :: string where
  "IMPORT_TYPES = ''JSX''"

record ComponentCompilerMeta =
  tagName :: string
  internal :: bool

record OutputTargetReact =
  componentCorePackage :: "string option"
  proxiesFile :: string
  excludeComponents :: "string list option"
  modulesDir :: "string option"

record CopyTask =
  src :: string
  dest :: string
  warn :: bool

text \<open>\<open>config.sys\<close> and its \<open>copy\<close> function, either of which may be missing; \<open>'r\<close> is what
  \<open>copy\<close> returns.\<close>

datatype 'r CompilerSystem = CompilerSystem (copy: "(CopyTask list \<Rightarrow> 'r) option")

record 'r Config =
  rootDir :: string
  sys :: "'r CompilerSystem option"

record PackageJSON =
  types :: string

text \<open>\<open>compilerCtx.fs\<close>: the files written, by path.\<close>

type_synonym CompilerCtx = "string obj"

definition writeFile :: "CompilerCtx \<Rightarrow> string \<Rightarrow> string \<Rightarrow> CompilerCtx" where
  "writeFile fs path text = obj_set path text fs"

text \<open>
  What the generator takes from outside this file and leaves to its host: Node's \<open>path\<close>
  module and \<open>__dirname\<close>, and the helpers \<open>readPackageJson\<close> and \<open>relativeImport\<close> of
  \<^verbatim>\<open>./utils\<close>. Reading the package file can fail.
\<close>

record host =
  path_dirname :: "string \<Rightarrow> string"
  path_join :: "string list \<Rightarrow> string"
  module_dirname :: string
  readPackageJson :: "string \<Rightarrow> error + PackageJSON"
  relativeImport :: "string \<Rightarrow> string \<Rightarrow> string \<Rightarrow> string"

text \<open>
  Modelled from the spec: \<open>sortBy\<close> of \<^verbatim>\<open>./utils\<close>, which is not among the sources. The spec:
  "Sort remaining descriptors by tag name for deterministic, diff-friendly output", and
  its example emits \<open>x-a\<close> before \<open>x-b\<close>: a stable sort, ascending in the key.
\<close>

definition sortBy :: "'a list \<Rightarrow> ('a \<Rightarrow> string) \<Rightarrow> 'a list" where
  "sortBy array prop = sort_key prop array"

text \<open>
  Modelled from the spec: \<open>dashToPascalCase\<close> of \<^verbatim>\<open>./utils\<close>, which is not among the sources.
  The spec: "derive a type-safe component name from the tag name (kebab-case \<rightarrow> PascalCase;
  e.g., \<open>my-button\<close> \<rightarrow> \<open>MyButton\<close>)": the segments between the dashes, each with its first
  letter in upper case, put together.
\<close>

definition toUpperCase_char :: "char \<Rightarrow> char" where
  "toUpperCase_char c =
     (case map_of (zip ''abcdefghijklmnopqrstuvwxyz'' ''ABCDEFGHIJKLMNOPQRSTUVWXYZ'') c of
        None \<Rightarrow> c | Some u \<Rightarrow> u)"

definition capitalize :: "string \<Rightarrow> string" where
  "capitalize segment = (case segment of [] \<Rightarrow> [] | c # cs \<Rightarrow> toUpperCase_char c # cs)"

definition dashToPascalCase :: "string \<Rightarrow> string" where
  "dashToPascalCase str = concat (map capitalize (split (CHR ''-'') str))"

text \<open>Lines 14-17; \<open>excludeComponents\<close> defaults to the empty array.\<close>

definition getFilteredComponents ::
  "string list option \<Rightarrow> ComponentCompilerMeta list \<Rightarrow> ComponentCompilerMeta list" where
  "getFilteredComponents exclude cmps =
     (let excluded = (case exclude of None \<Rightarrow> [] | Some xs \<Rightarrow> xs)
      in filter (\<lambda>c. tagName c \<notin> set excluded \<and> \<not> internal c) (sortBy cmps tagName))"

text \<open>Lines 52-58.\<close>

definition createComponentDefinition :: "ComponentCompilerMeta \<Rightarrow> string list" where
  "createComponentDefinition cmpMeta =
     (let tagNameAsPascal = dashToPascalCase (tagName cmpMeta)
      in [''export const '' @ tagNameAsPascal
            @ '' = /* #__PURE__ */createReactComponent<'' @ IMPORT_TYPES @ ''.'' @ tagNameAsPascal
            @ '', HTML'' @ tagNameAsPascal @ ''Element>(window, '' @ QUOTE @ tagName cmpMeta @ QUOTE
            @ '', Import'' @ tagNameAsPascal @ '');''])"

definition or_empty :: "string option \<Rightarrow> string" where
  "or_empty s = (case s of None \<Rightarrow> [] | Some x \<Rightarrow> x)"

text \<open>
  Lines 19-50: the text of the proxies file, written to \<open>outputTarget.proxiesFile\<close>. An array
  inside \<open>join\<close> is first joined with commas.
\<close>

definition generateProxies ::
  "host \<Rightarrow> CompilerCtx \<Rightarrow> ComponentCompilerMeta list \<Rightarrow> OutputTargetReact \<Rightarrow> string
     \<Rightarrow> CompilerCtx \<times> (error + unit)" where
  "generateProxies env fs components outputTarget root =
     (case readPackageJson env root of
        Inl err \<Rightarrow> (fs, Inl err)
      | Inr pkgData \<Rightarrow>
          (let distTypesDir = path_dirname env (types pkgData);
               dtsFilePath = path_join env [root, distTypesDir, GENERATED_DTS];
               componentsTypeFile = relativeImport env (proxiesFile outputTarget) dtsFilePath ''.d.ts'';
               imports = ''/* tslint:disable */'' @ NL @ ''/* auto-generated react proxies */'' @ NL
                 @ ''import { createReactComponent } from '' @ QUOTE @ ''./createComponent'' @ QUOTE
                 @ '';'' @ NL;
               typeImports =
                 ''import { '' @ IMPORT_TYPES @ '' } from '' @ QUOTE
                 @ (if \<not> truthy_str (componentCorePackage outputTarget) then componentsTypeFile
                    else or_empty (componentCorePackage outputTarget))
                 @ QUOTE @ '';'' @ NL;
               importList = join ('','' @ NL)
                 (map (\<lambda>cmpMeta.
                        let tagNameAsPascal = dashToPascalCase (tagName cmpMeta)
                        in ''  '' @ tagNameAsPascal @ '' as Import'' @ tagNameAsPascal)
                    components);
               sourceImports = ''import {'' @ NL @ importList @ NL @ ''// @ts-ignore'' @ NL
                 @ ''} from '' @ QUOTE
                 @ path_join env [or_empty (componentCorePackage outputTarget),
                                  or_empty (modulesDir outputTarget)]
                 @ QUOTE @ '';'' @ NL;
               final = [imports, typeImports, sourceImports,
                        join NL (map (\<lambda>cmpMeta. join '','' (createComponentDefinition cmpMeta)) components)];
               finalText = join NL final @ NL
           in (writeFile fs (proxiesFile outputTarget) finalText, Inr ())))"

definition NOT_INITIALIZED :: string where
  "NOT_INITIALIZED = ''stencil is not properly intialized at this step. Notify the developer''"

text \<open>Lines 60-77.\<close>

definition copyResources :: "host \<Rightarrow> 'r Config \<Rightarrow> OutputTargetReact \<Rightarrow> error + 'r" where
  "copyResources env config outputTarget =
     (let directory = path_dirname env (proxiesFile outputTarget);
          resourcesFilesToCopy = [''utils.ts'', ''createComponent.tsx'']
      in case sys config of
           None \<Rightarrow> Inl (Error NOT_INITIALIZED)
         | Some s \<Rightarrow>
             (case copy s of
                None \<Rightarrow> Inl (Error NOT_INITIALIZED)
              | Some cp \<Rightarrow>
                  Inr (cp (map (\<lambda>rf. \<lparr>src = path_join env [module_dirname env, ''../src/resources/'', rf],
                                      dest = path_join env [directory, rf],
                                      warn = False\<rparr>)
                             resourcesFilesToCopy))))"

text \<open>
  Lines 6-12: the proxies are generated, then the resources copied; the first exception
  ends the run. The result is the file system as the run left it, and its outcome.
\<close>

definition reactProxyOutput ::
  "host \<Rightarrow> CompilerCtx \<Rightarrow> OutputTargetReact \<Rightarrow> ComponentCompilerMeta list \<Rightarrow> 'r Config
     \<Rightarrow> CompilerCtx \<times> (error + 'r)" where
  "reactProxyOutput env fs outputTarget components config =
     (let filteredComponents = getFilteredComponents (excludeComponents outputTarget) components
      in case generateProxies env fs filteredComponents outputTarget (rootDir config) of
           (fs', Inl err) \<Rightarrow> (fs', Inl err)
         | (fs', Inr _) \<Rightarrow>
             (case copyResources env config outputTarget of
                Inl err \<Rightarrow> (fs', Inl err)
              | Inr r \<Rightarrow> (fs', Inr r)))"

section \<open>Example inputs\<close>

text \<open>A wrapper of an input element with a model property, as the spec's examples have it.\<close>

definition ex_cfg :: container_config where
  "ex_cfg =
     \<lparr>name = ''my-input'',
      componentProps = [[''value'', ''color'', ''routerDirection''], [''myFocus'']],
      modelProp = Some ''value'',
      modelUpdateEvent = Some (NameArray [''ionChange'']),
      externalModelUpdateEvent = Some ''change''\<rparr>"

text \<open>The same wrapper, made without a model property.\<close>

definition ex_cfg_no_modelProp :: container_config where
  "ex_cfg_no_modelProp = ex_cfg\<lparr>modelProp := None\<rparr>"

definition ex_change :: event where
  "ex_change =
     \<lparr>ev_type = ''ionChange'', target = [(''value'', JStr ''abc'')], defaultPrevented = False\<rparr>"

definition ex_click :: event where
  "ex_click = \<lparr>ev_type = ''click'', target = [], defaultPrevented = False\<rparr>"

definition ex_fresh :: wrapper where
  "ex_fresh = \<lparr>modelPropValue = EMPTY_PROP, classes = [], effects = []\<rparr>"

text \<open>The closure variables after a native update has cached "abc".\<close>

definition ex_cached :: wrapper where
  "ex_cached = \<lparr>modelPropValue = JStr ''abc'', classes = [], effects = []\<rparr>"

text \<open>The inputs of a wrapper nobody has set, and of one with a colour and a router link.\<close>

definition ex_props_unset :: "jsval obj" where
  "ex_props_unset =
     [(''routerLink'', EMPTY_PROP), (''value'', EMPTY_PROP), (''color'', EMPTY_PROP),
      (''routerDirection'', EMPTY_PROP), (''modelValue'', EMPTY_PROP)]"

text \<open>The inputs when only \<open>v-model\<close> is bound.\<close>

definition ex_props_model :: "jsval obj" where
  "ex_props_model =
     [(''routerLink'', EMPTY_PROP), (''value'', EMPTY_PROP), (''color'', EMPTY_PROP),
      (''routerDirection'', EMPTY_PROP), (''modelValue'', JStr ''typed'')]"

text \<open>The inputs of a wrapper that declares \<open>ariaLabel\<close> and \<open>size\<close>, with only the colour set.\<close>

definition ex_props_aria :: "jsval obj" where
  "ex_props_aria =
     [(''routerLink'', EMPTY_PROP), (''color'', JStr ''red''), (''ariaLabel'', EMPTY_PROP),
      (''size'', EMPTY_PROP)]"

definition ex_cfg_aria :: container_config where
  "ex_cfg_aria =
     \<lparr>name = ''my-button'', componentProps = [[''color'', ''ariaLabel'', ''size'']],
      modelProp = None, modelUpdateEvent = None, externalModelUpdateEvent = None\<rparr>"

definition ex_props_link :: "jsval obj" where
  "ex_props_link =
     [(''routerLink'', JStr ''/home''), (''value'', EMPTY_PROP), (''color'', JStr ''red''),
      (''routerDirection'', JStr ''forward''), (''modelValue'', EMPTY_PROP)]"

text \<open>The inputs when \<open>v-model\<close> is bound and \<open>value\<close> is set as well.\<close>

definition ex_props_both :: "jsval obj" where
  "ex_props_both =
     [(''routerLink'', EMPTY_PROP), (''value'', JStr ''static''), (''color'', EMPTY_PROP),
      (''routerDirection'', EMPTY_PROP), (''modelValue'', JStr ''typed'')]"

text \<open>A wrapper of an element that has a property \<open>onClick\<close>, used with a router link and a
  click handler.\<close>

definition ex_cfg_click :: container_config where
  "ex_cfg_click =
     \<lparr>name = ''my-link'', componentProps = [[''onClick'']],
      modelProp = None, modelUpdateEvent = None, externalModelUpdateEvent = None\<rparr>"

definition ex_props_click :: "jsval obj" where
  "ex_props_click = [(''routerLink'', JStr ''/home''), (''onClick'', JFun 7)]"

text \<open>A caller's click handler that leaves the event as it is.\<close>

definition ex_call :: "nat \<Rightarrow> event \<Rightarrow> event" where
  "ex_call f ev = ev"

definition ex_descriptors :: "ComponentCompilerMeta list" where
  "ex_descriptors =
     [\<lparr>tagName = ''x-b'', internal = False\<rparr>, \<lparr>tagName = ''x-a'', internal = False\<rparr>,
      \<lparr>tagName = ''x-c'', internal = True\<rparr>, \<lparr>tagName = ''x-d'', internal = False\<rparr>]"

definition ex_outputTarget :: OutputTargetReact where
  "ex_outputTarget =
     \<lparr>componentCorePackage = Some ''my-lib'', proxiesFile = ''out/components.ts'',
      excludeComponents = Some [''x-d''], modulesDir = None\<rparr>"

definition ex_host :: host where
  "ex_host =
     \<lparr>path_dirname = (\<lambda>p. ''out''),
      path_join = join ''/'',
      module_dirname = ''/lib/dist'',
      readPackageJson = (\<lambda>root. Inr \<lparr>types = ''dist/types/index.d.ts''\<rparr>),
      relativeImport = (\<lambda>from to ext. ''../dist/types/components'')\<rparr>"

text \<open>The same host, where the package file cannot be read.\<close>

definition ex_host_no_package :: host where
  "ex_host_no_package =
     ex_host\<lparr>readPackageJson := (\<lambda>root. Inl (Error ''package.json: no such file''))\<rparr>"

text \<open>A host without \<open>sys\<close>, and one whose \<open>copy\<close> returns the tasks it was given.\<close>

definition ex_config_no_sys :: "CopyTask list Config" where
  "ex_config_no_sys = \<lparr>rootDir = ''/proj'', sys = None\<rparr>"

definition ex_config :: "CopyTask list Config" where
  "ex_config = \<lparr>rootDir = ''/proj'', sys = Some (CompilerSystem (Some (\<lambda>tasks. tasks)))\<rparr>"

section \<open>Objects and strings: basic facts\<close>

lemma map_of_obj_set: "map_of (obj_set k v ob) = (map_of ob)(k \<mapsto> v)"
  by (induction ob) (auto simp: fun_eq_iff)

lemma map_of_fold_obj_set:
  "map_of (fold (\<lambda>key acc. if C key then obj_set key (F key) acc else acc) ks acc0) k
     = (if k \<in> set ks \<and> C k then Some (F k) else map_of acc0 k)"
  by (induction ks arbitrary: acc0) (auto simp: map_of_obj_set)

lemma hasOwnProperty_keys: "hasOwnProperty ob key = (key \<in> set (keys_of ob))"
  by (simp add: hasOwnProperty_def keys_of_def map_of_eq_None_iff)

lemma get_prop_absent: "\<not> hasOwnProperty ob key \<Longrightarrow> get_prop ob key = Undefined"
  by (simp add: hasOwnProperty_def get_prop_def)

lemma split_not_Nil: "split c s \<noteq> []"
  by (induction s) (auto split: list.splits)

lemma join_split: "join [c] (split c s) = s"
proof (induction s)
  case Nil
  then show ?case by simp
next
  case (Cons x xs)
  then show ?case
    using split_not_Nil [of c xs]
    by (cases "split c xs"; cases "tl (split c xs)") (auto split: list.splits)
qed

lemma split_pieces: "w \<in> set (split c s) \<Longrightarrow> c \<notin> set w"
  by (induction s arbitrary: w) (auto split: list.splits if_splits)

lemma split_no_sep: "c \<notin> set s \<Longrightarrow> split c s = [s]"
  by (induction s) auto

section \<open>Model updates\<close>

lemma modelUpdateListener_eq:
  "modelUpdateListener cfg e st =
     st\<lparr>modelPropValue := get_prop (target e) (prop_key (modelProp cfg)),
        effects := effects st
          @ Emit UPDATE_VALUE_EVENT (PVal (get_prop (target e) (prop_key (modelProp cfg))))
              (get_prop (target e) (prop_key (modelProp cfg)))
          # (case externalModelUpdateEvent cfg of
               None \<Rightarrow> []
             | Some ext \<Rightarrow>
                 if ext \<noteq> []
                 then [Emit ext (PEvent e) (get_prop (target e) (prop_key (modelProp cfg)))]
                 else [])\<rparr>"
  by (simp add: modelUpdateListener_def emit_def split: option.splits)

lemma listeners_of_names:
  "map snd (filter (\<lambda>(n, l). n = t) (map (\<lambda>eventName. (eventName, L)) ns))
     = replicate (count_list ns t) L"
  by (induction ns) auto

lemma listeners_of_custom:
  "map snd (filter (\<lambda>(n, l). n = t)
       (map (\<lambda>eventName. (eventName, CustomEventListener eventName)) es))
     = map CustomEventListener (filter (\<lambda>n. n = t) es)"
  by (induction es) auto

lemma fold_replicate_funpow: "fold f (replicate k x) s = (f x ^^ k) s"
  by (induction k arbitrary: s) (auto simp: funpow_swap1)

lemma count_list_pos: "x \<in> set xs \<Longrightarrow> 0 < count_list xs x"
  by (induction xs) auto

lemma run_model_listener: "run_listener cfg ModelUpdateListener e = modelUpdateListener cfg e"
  by (rule ext) simp

text \<open>
  An event at the mounted element runs the model-update listener once for every time its
  type stands among the model-update event names, and after that the forwarders of the
  custom events of that type.
\<close>

lemma dispatch_mounted:
  "dispatchEvent cfg (onVnodeBeforeMount cfg True) e st =
     fold (\<lambda>l. run_listener cfg l e)
       (map CustomEventListener
          (filter (\<lambda>n. n = ev_type e)
             (case componentCustomEvents cfg of None \<Rightarrow> [] | Some es \<Rightarrow> es)))
       ((modelUpdateListener cfg e ^^
           (if truthy_names (modelUpdateEvent cfg)
            then count_list (eventsNames (modelUpdateEvent cfg)) (ev_type e) else 0)) st)"
  by (simp add: dispatchEvent_def onVnodeBeforeMount_def listeners_of_names listeners_of_custom
        fold_replicate_funpow run_model_listener split: option.splits)

lemma model_listener_attached:
  "truthy_names (modelUpdateEvent cfg) \<Longrightarrow> n \<in> set (eventsNames (modelUpdateEvent cfg)) \<Longrightarrow>
   (n, ModelUpdateListener) \<in> set (onVnodeBeforeMount cfg True)"
  by (auto simp: onVnodeBeforeMount_def)

text \<open>
  C1. A wrapper with a model property \<open>p\<close> and model-update event names, mounted: its
  model-update listener is attached for each of those names, and an event \<open>e\<close> of such a
  type runs it (at least once, before any custom-event forwarder). Each run reads
  \<open>v = e.target[p]\<close>, caches \<open>v\<close>, emits \<open>update:modelValue\<close> with \<open>v\<close>, and only then, when an
  external event is configured, emits that with the native event \<open>e\<close>; at both emissions
  the cached value is \<open>v\<close>, the payload of the first.
\<close>

theorem C1_model_update_ordering:
  assumes "modelProp cfg = Some p"
    and "truthy_names (modelUpdateEvent cfg)"
    and "ev_type e \<in> set (eventsNames (modelUpdateEvent cfg))"
  shows "(ev_type e, ModelUpdateListener) \<in> set (onVnodeBeforeMount cfg True)
    \<and> modelUpdateListener cfg e st =
        st\<lparr>modelPropValue := get_prop (target e) p,
           effects := effects st
             @ Emit UPDATE_VALUE_EVENT (PVal (get_prop (target e) p)) (get_prop (target e) p)
             # (case externalModelUpdateEvent cfg of
                  None \<Rightarrow> []
                | Some ext \<Rightarrow>
                    if ext \<noteq> [] then [Emit ext (PEvent e) (get_prop (target e) p)] else [])\<rparr>
    \<and> 0 < count_list (eventsNames (modelUpdateEvent cfg)) (ev_type e)
    \<and> dispatchEvent cfg (onVnodeBeforeMount cfg True) e st =
        fold (\<lambda>l. run_listener cfg l e)
          (map CustomEventListener
             (filter (\<lambda>n. n = ev_type e)
                (case componentCustomEvents cfg of None \<Rightarrow> [] | Some es \<Rightarrow> es)))
          ((modelUpdateListener cfg e ^^
              count_list (eventsNames (modelUpdateEvent cfg)) (ev_type e)) st)"
proof -
  have attached: "(ev_type e, ModelUpdateListener) \<in> set (onVnodeBeforeMount cfg True)"
    using assms(2,3) by (rule model_listener_attached)
  have body: "modelUpdateListener cfg e st =
        st\<lparr>modelPropValue := get_prop (target e) p,
           effects := effects st
             @ Emit UPDATE_VALUE_EVENT (PVal (get_prop (target e) p)) (get_prop (target e) p)
             # (case externalModelUpdateEvent cfg of
                  None \<Rightarrow> []
                | Some ext \<Rightarrow>
                    if ext \<noteq> [] then [Emit ext (PEvent e) (get_prop (target e) p)] else [])\<rparr>"
    using assms(1) by (simp add: modelUpdateListener_eq prop_key_def split: option.splits)
  have runs: "0 < count_list (eventsNames (modelUpdateEvent cfg)) (ev_type e)"
    using assms(3) by (rule count_list_pos)
  show ?thesis
    using attached body runs assms(2) by (simp only: dispatch_mounted if_True simp_thms)
qed

theorem C1_model_update_ordering_witness:
  "modelProp ex_cfg = Some ''value''
   \<and> truthy_names (modelUpdateEvent ex_cfg)
   \<and> ev_type ex_change \<in> set (eventsNames (modelUpdateEvent ex_cfg))
   \<and> (''ionChange'', ModelUpdateListener) \<in> set (onVnodeBeforeMount ex_cfg True)
   \<and> modelUpdateListener ex_cfg ex_change ex_fresh =
       \<lparr>modelPropValue = JStr ''abc'', classes = [],
        effects = [Emit ''update:modelValue'' (PVal (JStr ''abc'')) (JStr ''abc''),
                   Emit ''change'' (PEvent ex_change) (JStr ''abc'')]\<rparr>
   \<and> dispatchEvent ex_cfg (onVnodeBeforeMount ex_cfg True) ex_change ex_fresh =
       modelUpdateListener ex_cfg ex_change ex_fresh"
proof -
  have h1: "modelProp ex_cfg = Some ''value''"
    by (simp add: ex_cfg_def)
  have h2: "truthy_names (modelUpdateEvent ex_cfg)"
    by (simp add: ex_cfg_def truthy_names_def)
  have h3: "ev_type ex_change \<in> set (eventsNames (modelUpdateEvent ex_cfg))"
    by (simp add: ex_cfg_def ex_change_def eventsNames_def)
  have t: "ev_type ex_change = ''ionChange''"
    by (simp add: ex_change_def)
  have v: "get_prop (target ex_change) ''value'' = JStr ''abc''"
    by (simp add: ex_change_def get_prop_def)
  have c: "count_list (eventsNames (modelUpdateEvent ex_cfg)) ''ionChange'' = 1"
    by (simp add: ex_cfg_def eventsNames_def)
  have x: "externalModelUpdateEvent ex_cfg = Some ''change''"
    by (simp add: ex_cfg_def)
  have cu: "componentCustomEvents ex_cfg = Some [''myFocus'']"
    by (simp add: ex_cfg_def componentCustomEvents_def)
  show ?thesis
    using C1_model_update_ordering [OF h1 h2 h3, of ex_fresh] h1 h2 h3
    by (simp add: t v c x cu UPDATE_VALUE_EVENT_def) (simp add: ex_fresh_def)
qed

lemma modelUpdateListener_emits:
  "\<exists>rest. effects (modelUpdateListener cfg e st) =
     effects st
       @ Emit UPDATE_VALUE_EVENT (PVal (get_prop (target e) (prop_key (modelProp cfg))))
           (get_prop (target e) (prop_key (modelProp cfg)))
       # rest"
  by (simp add: modelUpdateListener_eq)

lemma run_listener_grows: "\<exists>r. effects (run_listener cfg l e st) = effects st @ r"
  by (cases l) (simp_all add: modelUpdateListener_eq emit_def)

lemma fold_run_listener_grows:
  "\<exists>r. effects (fold (\<lambda>l. run_listener cfg l e) ls st) = effects st @ r"
proof (induction ls arbitrary: st)
  case Nil
  show ?case by simp
next
  case (Cons l ls)
  from run_listener_grows [of cfg l e st] obtain r1 where
    r1: "effects (run_listener cfg l e st) = effects st @ r1" by blast
  from Cons.IH [of "run_listener cfg l e st"] obtain r2 where
    "effects (fold (\<lambda>l. run_listener cfg l e) ls (run_listener cfg l e st))
       = effects (run_listener cfg l e st) @ r2" by blast
  with r1 show ?case by simp
qed

lemma funpow_modelUpdateListener_grows:
  "\<exists>r. effects ((modelUpdateListener cfg e ^^ k) st) = effects st @ r"
proof (induction k)
  case 0
  show ?case by simp
next
  case (Suc k)
  then obtain r1 where r1: "effects ((modelUpdateListener cfg e ^^ k) st) = effects st @ r1"
    by blast
  from modelUpdateListener_emits [of cfg e "(modelUpdateListener cfg e ^^ k) st"] obtain r2 where
    "effects (modelUpdateListener cfg e ((modelUpdateListener cfg e ^^ k) st))
       = effects ((modelUpdateListener cfg e ^^ k) st)
         @ Emit UPDATE_VALUE_EVENT (PVal (get_prop (target e) (prop_key (modelProp cfg))))
             (get_prop (target e) (prop_key (modelProp cfg))) # r2"
    by blast
  with r1 show ?case by simp
qed

text \<open>
  An event of a model-update type at the mounted element: the first thing the wrapper does
  is to emit \<open>update:modelValue\<close> with the value read from the target.
\<close>

lemma dispatch_emits_update:
  assumes "truthy_names (modelUpdateEvent cfg)"
    and "ev_type e \<in> set (eventsNames (modelUpdateEvent cfg))"
  shows "\<exists>rest. effects (dispatchEvent cfg (onVnodeBeforeMount cfg True) e st) =
     effects st
       @ Emit UPDATE_VALUE_EVENT (PVal (get_prop (target e) (prop_key (modelProp cfg))))
           (get_prop (target e) (prop_key (modelProp cfg)))
       # rest"
proof -
  from assms(2) have "0 < count_list (eventsNames (modelUpdateEvent cfg)) (ev_type e)"
    by (rule count_list_pos)
  then obtain k where k: "count_list (eventsNames (modelUpdateEvent cfg)) (ev_type e) = Suc k"
    by (cases "count_list (eventsNames (modelUpdateEvent cfg)) (ev_type e)") auto
  define s1 where "s1 = modelUpdateListener cfg e st"
  define s2 where "s2 = (modelUpdateListener cfg e ^^ k) s1"
  from modelUpdateListener_emits [of cfg e st] obtain r1 where
    r1: "effects s1 = effects st
       @ Emit UPDATE_VALUE_EVENT (PVal (get_prop (target e) (prop_key (modelProp cfg))))
           (get_prop (target e) (prop_key (modelProp cfg))) # r1"
    unfolding s1_def by blast
  from funpow_modelUpdateListener_grows [where cfg = cfg and e = e and k = k and st = s1] obtain r2 where
    r2: "effects s2 = effects s1 @ r2"
    unfolding s2_def by blast
  have "dispatchEvent cfg (onVnodeBeforeMount cfg True) e st =
     fold (\<lambda>l. run_listener cfg l e)
       (map CustomEventListener
          (filter (\<lambda>n. n = ev_type e)
             (case componentCustomEvents cfg of None \<Rightarrow> [] | Some es \<Rightarrow> es))) s2"
    using assms(1) by (simp add: dispatch_mounted k funpow_swap1 s1_def s2_def)
  moreover from fold_run_listener_grows obtain r3 where
    "effects (fold (\<lambda>l. run_listener cfg l e)
       (map CustomEventListener
          (filter (\<lambda>n. n = ev_type e)
             (case componentCustomEvents cfg of None \<Rightarrow> [] | Some es \<Rightarrow> es))) s2)
      = effects s2 @ r3"
    by blast
  ultimately show ?thesis
    using r1 r2 by simp
qed

text \<open>
  C9. Made with model-update event names and no model property, the wrapper still
  attaches the model-update listener, whose closure is the listener body of lines 89-104.
  An event of such a type at the mounted element runs that body at least once, before any
  custom-event forwarder, and the first thing the firing does is to emit
  \<open>update:modelValue\<close>; so does every run of the body. The payload is read from the target
  under the key \<open>undefined\<close>, and is \<open>undefined\<close> when the target has no property of that
  name.
\<close>

theorem C9_model_wiring_without_modelProp:
  assumes "modelProp cfg = None"
    and "truthy_names (modelUpdateEvent cfg)"
    and "ev_type e \<in> set (eventsNames (modelUpdateEvent cfg))"
  shows "(ev_type e, ModelUpdateListener) \<in> set (onVnodeBeforeMount cfg True)
    \<and> 0 < count_list (eventsNames (modelUpdateEvent cfg)) (ev_type e)
    \<and> (\<exists>rest. effects (modelUpdateListener cfg e st) =
          effects st
            @ Emit UPDATE_VALUE_EVENT (PVal (get_prop (target e) ''undefined''))
                (get_prop (target e) ''undefined'')
            # rest)
    \<and> (\<not> hasOwnProperty (target e) ''undefined'' \<longrightarrow>
          get_prop (target e) ''undefined'' = Undefined)
    \<and> run_listener cfg ModelUpdateListener e st = modelUpdateListener cfg e st
    \<and> dispatchEvent cfg (onVnodeBeforeMount cfg True) e st =
        fold (\<lambda>l. run_listener cfg l e)
          (map CustomEventListener
             (filter (\<lambda>n. n = ev_type e)
                (case componentCustomEvents cfg of None \<Rightarrow> [] | Some es \<Rightarrow> es)))
          ((modelUpdateListener cfg e ^^
              count_list (eventsNames (modelUpdateEvent cfg)) (ev_type e)) st)
    \<and> (\<exists>rest. effects (dispatchEvent cfg (onVnodeBeforeMount cfg True) e st) =
          effects st
            @ Emit UPDATE_VALUE_EVENT (PVal (get_prop (target e) ''undefined''))
                (get_prop (target e) ''undefined'')
            # rest)"
proof -
  have key: "prop_key (modelProp cfg) = ''undefined''"
    using assms(1) by (simp add: prop_key_def)
  have attached: "(ev_type e, ModelUpdateListener) \<in> set (onVnodeBeforeMount cfg True)"
    using assms(2,3) by (rule model_listener_attached)
  have runs: "0 < count_list (eventsNames (modelUpdateEvent cfg)) (ev_type e)"
    using assms(3) by (rule count_list_pos)
  have body: "\<exists>rest. effects (modelUpdateListener cfg e st) =
          effects st
            @ Emit UPDATE_VALUE_EVENT (PVal (get_prop (target e) ''undefined''))
                (get_prop (target e) ''undefined'')
            # rest"
    using modelUpdateListener_emits [of cfg e st] by (simp only: key)
  have payload: "\<not> hasOwnProperty (target e) ''undefined'' \<longrightarrow>
          get_prop (target e) ''undefined'' = Undefined"
    by (simp add: get_prop_absent)
  have closure: "run_listener cfg ModelUpdateListener e st = modelUpdateListener cfg e st"
    by simp
  have fired: "dispatchEvent cfg (onVnodeBeforeMount cfg True) e st =
        fold (\<lambda>l. run_listener cfg l e)
          (map CustomEventListener
             (filter (\<lambda>n. n = ev_type e)
                (case componentCustomEvents cfg of None \<Rightarrow> [] | Some es \<Rightarrow> es)))
          ((modelUpdateListener cfg e ^^
              count_list (eventsNames (modelUpdateEvent cfg)) (ev_type e)) st)"
    using assms(2) by (simp only: dispatch_mounted if_True)
  have first: "\<exists>rest. effects (dispatchEvent cfg (onVnodeBeforeMount cfg True) e st) =
          effects st
            @ Emit UPDATE_VALUE_EVENT (PVal (get_prop (target e) ''undefined''))
                (get_prop (target e) ''undefined'')
            # rest"
    using dispatch_emits_update [OF assms(2,3), of st] by (simp only: key)
  from attached runs body payload closure fired first show ?thesis
    by (intro conjI)
qed

theorem C9_model_wiring_without_modelProp_witness:
  "modelProp ex_cfg_no_modelProp = None
   \<and> truthy_names (modelUpdateEvent ex_cfg_no_modelProp)
   \<and> ev_type ex_change \<in> set (eventsNames (modelUpdateEvent ex_cfg_no_modelProp))
   \<and> \<not> hasOwnProperty (target ex_change) ''undefined''
   \<and> (''ionChange'', ModelUpdateListener) \<in> set (onVnodeBeforeMount ex_cfg_no_modelProp True)
   \<and> effects (modelUpdateListener ex_cfg_no_modelProp ex_change ex_fresh) =
       [Emit ''update:modelValue'' (PVal Undefined) Undefined,
        Emit ''change'' (PEvent ex_change) Undefined]
   \<and> effects (dispatchEvent ex_cfg_no_modelProp (onVnodeBeforeMount ex_cfg_no_modelProp True)
         ex_change ex_fresh) =
       [Emit ''update:modelValue'' (PVal Undefined) Undefined,
        Emit ''change'' (PEvent ex_change) Undefined]"
proof -
  have h1: "modelProp ex_cfg_no_modelProp = None"
    by (simp add: ex_cfg_no_modelProp_def)
  have h2: "truthy_names (modelUpdateEvent ex_cfg_no_modelProp)"
    by (simp add: ex_cfg_no_modelProp_def ex_cfg_def truthy_names_def)
  have h3: "ev_type ex_change \<in> set (eventsNames (modelUpdateEvent ex_cfg_no_modelProp))"
    by (simp add: ex_cfg_no_modelProp_def ex_cfg_def ex_change_def eventsNames_def)
  have h4: "\<not> hasOwnProperty (target ex_change) ''undefined''"
    by (simp add: ex_change_def hasOwnProperty_def)
  have t: "ev_type ex_change = ''ionChange''"
    by (simp add: ex_change_def)
  have c: "count_list (eventsNames (modelUpdateEvent ex_cfg_no_modelProp)) ''ionChange'' = 1"
    by (simp add: ex_cfg_no_modelProp_def ex_cfg_def eventsNames_def)
  have cu: "componentCustomEvents ex_cfg_no_modelProp = Some [''myFocus'']"
    by (simp add: ex_cfg_no_modelProp_def ex_cfg_def componentCustomEvents_def)
  have run: "effects (modelUpdateListener ex_cfg_no_modelProp ex_change ex_fresh) =
       [Emit ''update:modelValue'' (PVal (get_prop (target ex_change) ''undefined''))
          (get_prop (target ex_change) ''undefined''),
        Emit ''change'' (PEvent ex_change) (get_prop (target ex_change) ''undefined'')]"
    by (simp add: modelUpdateListener_eq ex_cfg_no_modelProp_def ex_cfg_def prop_key_def
          ex_fresh_def UPDATE_VALUE_EVENT_def)
  show ?thesis
    using C9_model_wiring_without_modelProp [OF h1 h2 h3, of ex_fresh] h1 h2 h3 h4
    by (simp add: t c cu run)
qed

section \<open>What a render forwards\<close>

lemma map_of_forward_props:
  "map_of (forward_props props propsToAdd) key =
     (if key \<in> set (keys_of props) \<and>
         (startsWith key ARIA_PROP_PREFIX \<or> get_prop props key \<noteq> EMPTY_PROP)
      then Some (OVal (get_prop props key)) else map_of propsToAdd key)"
  unfolding forward_props_def Let_def
  by (subst map_of_fold_obj_set) (auto simp: hasOwnProperty_keys)

lemma map_of_propsToAdd_initial:
  "map_of (propsToAdd_initial merged oldClick) key =
     (if key = ''ref'' then Some ORef
      else if key = ''class'' then Some (OClass merged)
      else if key = ''onClick'' then Some (OHandleClick oldClick)
      else if key = ''onVnodeBeforeMount'' then Some OBeforeMount
      else None)"
  by (simp add: propsToAdd_initial_def)

lemma propsToAdd_initial_no_OVal:
  "map_of (propsToAdd_initial merged oldClick) key \<noteq> Some (OVal v)"
  by (simp add: map_of_propsToAdd_initial)

lemma map_of_model_precedence:
  "map_of (model_precedence cfg props cached propsToAdd) key =
     (if truthy_str (modelProp cfg) \<and> key = prop_key (modelProp cfg)
      then (if get_prop props MODEL_VALUE \<noteq> EMPTY_PROP
            then Some (OVal (get_prop props MODEL_VALUE))
            else if cached \<noteq> EMPTY_PROP then Some (OVal cached)
            else map_of propsToAdd key)
      else map_of propsToAdd key)"
  by (simp add: model_precedence_def map_of_obj_set)

text \<open>What a render that returns has done: the cached model value is the input named by
  the model property, read anew; the class set has grown; the vnode is built in three steps.\<close>

lemma render_Inr:
  assumes "render cfg props attrs_class ref st = Inr (st', vn)"
  shows "\<exists>vs. getComponentClasses attrs_class = Inr vs
    \<and> st' = st\<lparr>modelPropValue := get_prop props (prop_key (modelProp cfg)),
                classes := fold set_add vs (classes st)\<rparr>
    \<and> vn = \<lparr>tag = name cfg,
             vprops = model_precedence cfg props (get_prop props (prop_key (modelProp cfg)))
               (forward_props props
                  (propsToAdd_initial (getElementClasses ref (classes st') [])
                     (get_prop props ''onClick'')))\<rparr>"
proof (cases "getComponentClasses attrs_class")
  case (Inl err)
  with assms show ?thesis
    by (simp add: render_def render_classes_def)
next
  case (Inr vs)
  with assms show ?thesis
    by (auto simp: render_def render_classes_def Let_def)
qed

text \<open>
  C3, as the code has it. The forwarding step of every render (lines 178-183), for a
  declared input \<open>key\<close>: when the value is not the sentinel or the name starts with
  \<open>aria\<close>, the entry of that name becomes the input's value; otherwise the step leaves the
  entry of that name as the render had it before, which is no entry at all unless the
  name is one of \<open>ref\<close>, \<open>class\<close>, \<open>onClick\<close>, \<open>onVnodeBeforeMount\<close>, whose entries are the
  render's own. So the pair of the name and the input's value is forwarded if and only if
  the value is not the sentinel or the name starts with \<open>aria\<close>, and an input left at the
  sentinel and not so prefixed is not forwarded under its name at all. The same holds of
  the vnode the render returns, for every declared input except one: the model property
  of a wrapper that has one, while \<open>modelValue\<close> is not the sentinel.
\<close>

theorem C3_property_forwarding_amended:
  assumes "key \<in> set (keys_of props)"
  shows "map_of (forward_props props (propsToAdd_initial merged oldClick)) key =
        (if startsWith key ARIA_PROP_PREFIX \<or> get_prop props key \<noteq> EMPTY_PROP
         then Some (OVal (get_prop props key))
         else map_of (propsToAdd_initial merged oldClick) key)
    \<and> map_of (propsToAdd_initial merged oldClick) key =
        (if key = ''ref'' then Some ORef
         else if key = ''class'' then Some (OClass merged)
         else if key = ''onClick'' then Some (OHandleClick oldClick)
         else if key = ''onVnodeBeforeMount'' then Some OBeforeMount
         else None)
    \<and> ((map_of (forward_props props (propsToAdd_initial merged oldClick)) key
             = Some (OVal (get_prop props key)))
          = (startsWith key ARIA_PROP_PREFIX \<or> get_prop props key \<noteq> EMPTY_PROP))
    \<and> (render cfg props attrs_class ref st = Inr (st', vn)
         \<and> \<not> (truthy_str (modelProp cfg) \<and> key = prop_key (modelProp cfg)
                \<and> get_prop props MODEL_VALUE \<noteq> EMPTY_PROP)
       \<longrightarrow> map_of (vprops vn) key =
             (if startsWith key ARIA_PROP_PREFIX \<or> get_prop props key \<noteq> EMPTY_PROP
              then Some (OVal (get_prop props key))
              else map_of (propsToAdd_initial (getElementClasses ref (classes st') [])
                             (get_prop props ''onClick'')) key)
           \<and> ((map_of (vprops vn) key = Some (OVal (get_prop props key)))
                = (startsWith key ARIA_PROP_PREFIX \<or> get_prop props key \<noteq> EMPTY_PROP)))"
proof -
  have step: "map_of (forward_props props (propsToAdd_initial m oc)) key =
        (if startsWith key ARIA_PROP_PREFIX \<or> get_prop props key \<noteq> EMPTY_PROP
         then Some (OVal (get_prop props key))
         else map_of (propsToAdd_initial m oc) key)" for m oc
    using assms by (simp add: map_of_forward_props)
  have iff: "(map_of (forward_props props (propsToAdd_initial m oc)) key
                 = Some (OVal (get_prop props key)))
          = (startsWith key ARIA_PROP_PREFIX \<or> get_prop props key \<noteq> EMPTY_PROP)" for m oc
    by (simp add: step propsToAdd_initial_no_OVal)
  have rendered: "map_of (vprops vn) key =
             (if startsWith key ARIA_PROP_PREFIX \<or> get_prop props key \<noteq> EMPTY_PROP
              then Some (OVal (get_prop props key))
              else map_of (propsToAdd_initial (getElementClasses ref (classes st') [])
                             (get_prop props ''onClick'')) key)
           \<and> ((map_of (vprops vn) key = Some (OVal (get_prop props key)))
                = (startsWith key ARIA_PROP_PREFIX \<or> get_prop props key \<noteq> EMPTY_PROP))"
    if r: "render cfg props attrs_class ref st = Inr (st', vn)"
      and other: "\<not> (truthy_str (modelProp cfg) \<and> key = prop_key (modelProp cfg)
                \<and> get_prop props MODEL_VALUE \<noteq> EMPTY_PROP)"
  proof -
    define m where "m = getElementClasses ref (classes st') []"
    define oc where "oc = get_prop props ''onClick''"
    from render_Inr [OF r] have vp:
      "vprops vn = model_precedence cfg props (get_prop props (prop_key (modelProp cfg)))
               (forward_props props (propsToAdd_initial m oc))"
      by (auto simp: m_def oc_def)
    have same: "map_of (vprops vn) key
        = map_of (forward_props props (propsToAdd_initial m oc)) key"
    proof (cases "truthy_str (modelProp cfg) \<and> key = prop_key (modelProp cfg)")
      case True
      then have t: "truthy_str (modelProp cfg)" and kp: "prop_key (modelProp cfg) = key"
        by simp_all
      from True other have mv: "get_prop props MODEL_VALUE = EMPTY_PROP"
        by blast
      show ?thesis
        by (simp add: vp map_of_model_precedence t kp mv step)
    next
      case False
      then show ?thesis
        by (auto simp: vp map_of_model_precedence)
    qed
    show ?thesis
      unfolding same m_def [symmetric] oc_def [symmetric]
      using step [of m oc] iff [of m oc] by simp
  qed
  from step [of merged oldClick] iff [of merged oldClick] rendered
  show ?thesis
    by (simp only: map_of_propsToAdd_initial simp_thms) blast
qed

theorem C3_property_forwarding_amended_witness:
  "''ariaLabel'' \<in> set (keys_of ex_props_aria)
   \<and> ''size'' \<in> set (keys_of ex_props_aria)
   \<and> get_prop ex_props_aria ''ariaLabel'' = EMPTY_PROP
   \<and> get_prop ex_props_aria ''size'' = EMPTY_PROP
   \<and> startsWith ''ariaLabel'' ARIA_PROP_PREFIX
   \<and> \<not> startsWith ''size'' ARIA_PROP_PREFIX
   \<and> render ex_cfg_aria ex_props_aria Undefined None ex_fresh =
       Inr (ex_fresh\<lparr>modelPropValue := Undefined\<rparr>,
            \<lparr>tag = ''my-button'',
             vprops = [(''ref'', ORef), (''class'', OClass []),
                       (''onClick'', OHandleClick Undefined), (''onVnodeBeforeMount'', OBeforeMount),
                       (''color'', OVal (JStr ''red'')), (''ariaLabel'', OVal EMPTY_PROP)]\<rparr>)
   \<and> map_of (forward_props ex_props_aria (propsToAdd_initial [] Undefined)) ''ariaLabel''
       = Some (OVal EMPTY_PROP)
   \<and> map_of (forward_props ex_props_aria (propsToAdd_initial [] Undefined)) ''size'' = None"
proof -
  have h: "''ariaLabel'' \<in> set (keys_of ex_props_aria)"
    by (simp add: ex_props_aria_def keys_of_def)
  have h': "''size'' \<in> set (keys_of ex_props_aria)"
    by (simp add: ex_props_aria_def keys_of_def)
  have v: "get_prop ex_props_aria ''ariaLabel'' = EMPTY_PROP"
    by (simp add: ex_props_aria_def get_prop_def)
  have v': "get_prop ex_props_aria ''size'' = EMPTY_PROP"
    by (simp add: ex_props_aria_def get_prop_def)
  have a: "startsWith ''ariaLabel'' ARIA_PROP_PREFIX"
    by (simp add: startsWith_def ARIA_PROP_PREFIX_def)
  have a': "\<not> startsWith ''size'' ARIA_PROP_PREFIX"
    by (simp add: startsWith_def ARIA_PROP_PREFIX_def)
  have r: "render ex_cfg_aria ex_props_aria Undefined None ex_fresh =
       Inr (ex_fresh\<lparr>modelPropValue := Undefined\<rparr>,
            \<lparr>tag = ''my-button'',
             vprops = [(''ref'', ORef), (''class'', OClass []),
                       (''onClick'', OHandleClick Undefined), (''onVnodeBeforeMount'', OBeforeMount),
                       (''color'', OVal (JStr ''red'')), (''ariaLabel'', OVal EMPTY_PROP)]\<rparr>)"
    by (simp add: render_def render_classes_def getComponentClasses_def getElementClasses_def
          ex_cfg_aria_def ex_props_aria_def ex_fresh_def prop_key_def get_prop_def
          propsToAdd_initial_def forward_props_def keys_of_def hasOwnProperty_def
          startsWith_def ARIA_PROP_PREFIX_def model_precedence_def truthy_str_def)
  have "map_of (forward_props ex_props_aria (propsToAdd_initial [] Undefined)) ''ariaLabel''
       = Some (OVal EMPTY_PROP)"
    using C3_property_forwarding_amended [OF h, of "[]" Undefined] v a by simp
  moreover have "map_of (forward_props ex_props_aria (propsToAdd_initial [] Undefined)) ''size''
       = None"
    using C3_property_forwarding_amended [OF h', of "[]" Undefined] v' a' by simp
  ultimately show ?thesis
    using h h' v v' a a' r by simp
qed

text \<open>
  C3 as the claim states it fails for the model property. With \<open>value\<close> set to "static" and
  \<open>v-model\<close> bound to "typed", the input \<open>value\<close> is not the sentinel, and yet the element
  is not given the pair of \<open>value\<close> and "static": the model step has put "typed" in its
  place. And with \<open>value\<close> left at the sentinel and \<open>v-model\<close> bound, the name \<open>value\<close>, not
  \<open>aria\<close>-prefixed, is forwarded all the same.
\<close>

theorem C3_model_property_counterexample:
  "''value'' \<in> set (keys_of ex_props_both)
   \<and> get_prop ex_props_both ''value'' = JStr ''static''
   \<and> render ex_cfg ex_props_both Undefined None ex_fresh =
       Inr (\<lparr>modelPropValue = JStr ''static'', classes = [], effects = []\<rparr>,
            \<lparr>tag = ''my-input'',
             vprops = [(''ref'', ORef), (''class'', OClass []),
                       (''onClick'', OHandleClick Undefined), (''onVnodeBeforeMount'', OBeforeMount),
                       (''value'', OVal (JStr ''typed'')), (''modelValue'', OVal (JStr ''typed''))]\<rparr>)
   \<and> ''value'' \<in> set (keys_of ex_props_model)
   \<and> get_prop ex_props_model ''value'' = EMPTY_PROP
   \<and> \<not> startsWith ''value'' ARIA_PROP_PREFIX
   \<and> render ex_cfg ex_props_model Undefined None ex_fresh =
       Inr (\<lparr>modelPropValue = EMPTY_PROP, classes = [], effects = []\<rparr>,
            \<lparr>tag = ''my-input'',
             vprops = [(''ref'', ORef), (''class'', OClass []),
                       (''onClick'', OHandleClick Undefined), (''onVnodeBeforeMount'', OBeforeMount),
                       (''modelValue'', OVal (JStr ''typed'')), (''value'', OVal (JStr ''typed''))]\<rparr>)"
  by (simp add: render_def render_classes_def getComponentClasses_def getElementClasses_def
        ex_cfg_def ex_props_both_def ex_props_model_def ex_fresh_def prop_key_def get_prop_def
        propsToAdd_initial_def forward_props_def keys_of_def hasOwnProperty_def
        startsWith_def ARIA_PROP_PREFIX_def model_precedence_def truthy_str_def MODEL_VALUE_def)

text \<open>
  C2, as the code has it. The render first reads the input named by the model property
  into the cached model value (line 149), so what a native update cached before is gone
  when the model step runs. For a wrapper with a model property \<open>p\<close>: a \<open>modelValue\<close> that
  is not the sentinel is forwarded as \<open>p\<close>; otherwise the input \<open>p\<close> itself, when that is
  not the sentinel; otherwise the model step adds nothing, and \<open>p\<close> is among the vnode's
  properties only if the forwarding step put the sentinel there for an \<open>aria\<close> name, or \<open>p\<close>
  is one of the four names every render starts from.
\<close>

theorem C2_model_precedence_amended:
  assumes "truthy_str (modelProp cfg)"
    and "render cfg props attrs_class ref st = Inr (st', vn)"
  shows "modelPropValue st' = get_prop props (prop_key (modelProp cfg))
    \<and> map_of (vprops vn) (prop_key (modelProp cfg)) =
        (if get_prop props MODEL_VALUE \<noteq> EMPTY_PROP
         then Some (OVal (get_prop props MODEL_VALUE))
         else if get_prop props (prop_key (modelProp cfg)) \<noteq> EMPTY_PROP
         then Some (OVal (get_prop props (prop_key (modelProp cfg))))
         else if prop_key (modelProp cfg) \<in> set (keys_of props)
                 \<and> startsWith (prop_key (modelProp cfg)) ARIA_PROP_PREFIX
         then Some (OVal EMPTY_PROP)
         else if prop_key (modelProp cfg) \<in> set [''ref'', ''class'', ''onClick'', ''onVnodeBeforeMount'']
         then map_of (propsToAdd_initial (getElementClasses ref (classes st') [])
                        (get_prop props ''onClick'')) (prop_key (modelProp cfg))
         else None)"
proof -
  from render_Inr [OF assms(2)] obtain vs where
    st': "st' = st\<lparr>modelPropValue := get_prop props (prop_key (modelProp cfg)),
                classes := fold set_add vs (classes st)\<rparr>"
    and vn: "vprops vn = model_precedence cfg props (get_prop props (prop_key (modelProp cfg)))
               (forward_props props
                  (propsToAdd_initial (getElementClasses ref (classes st') [])
                     (get_prop props ''onClick'')))"
    by auto
  have "modelPropValue st' = get_prop props (prop_key (modelProp cfg))"
    by (simp add: st')
  moreover have "map_of (vprops vn) (prop_key (modelProp cfg)) =
        (if get_prop props MODEL_VALUE \<noteq> EMPTY_PROP
         then Some (OVal (get_prop props MODEL_VALUE))
         else if get_prop props (prop_key (modelProp cfg)) \<noteq> EMPTY_PROP
         then Some (OVal (get_prop props (prop_key (modelProp cfg))))
         else if prop_key (modelProp cfg) \<in> set (keys_of props)
                 \<and> startsWith (prop_key (modelProp cfg)) ARIA_PROP_PREFIX
         then Some (OVal EMPTY_PROP)
         else if prop_key (modelProp cfg) \<in> set [''ref'', ''class'', ''onClick'', ''onVnodeBeforeMount'']
         then map_of (propsToAdd_initial (getElementClasses ref (classes st') [])
                        (get_prop props ''onClick'')) (prop_key (modelProp cfg))
         else None)"
    unfolding vn using assms(1)
    by (simp add: map_of_model_precedence map_of_forward_props map_of_propsToAdd_initial)
  ultimately show ?thesis by simp
qed

theorem C2_model_precedence_amended_witness:
  "truthy_str (modelProp ex_cfg)
   \<and> modelPropValue ex_cached = JStr ''abc''
   \<and> render ex_cfg ex_props_model Undefined None ex_cached =
       Inr (ex_fresh,
            \<lparr>tag = ''my-input'',
             vprops = [(''ref'', ORef), (''class'', OClass []),
                       (''onClick'', OHandleClick Undefined), (''onVnodeBeforeMount'', OBeforeMount),
                       (''modelValue'', OVal (JStr ''typed'')), (''value'', OVal (JStr ''typed''))]\<rparr>)
   \<and> map_of [(''ref'', ORef), (''class'', OClass []),
              (''onClick'', OHandleClick Undefined), (''onVnodeBeforeMount'', OBeforeMount),
              (''modelValue'', OVal (JStr ''typed'')), (''value'', OVal (JStr ''typed''))] ''value''
       = Some (OVal (get_prop ex_props_model MODEL_VALUE))"
proof -
  have h: "truthy_str (modelProp ex_cfg)"
    by (simp add: ex_cfg_def truthy_str_def)
  have r: "render ex_cfg ex_props_model Undefined None ex_cached =
       Inr (ex_fresh,
            \<lparr>tag = ''my-input'',
             vprops = [(''ref'', ORef), (''class'', OClass []),
                       (''onClick'', OHandleClick Undefined), (''onVnodeBeforeMount'', OBeforeMount),
                       (''modelValue'', OVal (JStr ''typed'')), (''value'', OVal (JStr ''typed''))]\<rparr>)"
    by (simp add: render_def render_classes_def getComponentClasses_def getElementClasses_def
          ex_cfg_def ex_props_model_def ex_cached_def ex_fresh_def prop_key_def get_prop_def
          propsToAdd_initial_def forward_props_def keys_of_def hasOwnProperty_def
          startsWith_def ARIA_PROP_PREFIX_def model_precedence_def truthy_str_def MODEL_VALUE_def)
  have p: "prop_key (modelProp ex_cfg) = ''value''"
    by (simp add: ex_cfg_def prop_key_def)
  have c: "modelPropValue ex_cached = JStr ''abc''"
    by (simp add: ex_cached_def)
  have m: "get_prop ex_props_model MODEL_VALUE = JStr ''typed''"
    by (simp add: ex_props_model_def MODEL_VALUE_def get_prop_def)
  show ?thesis
    using C2_model_precedence_amended [OF h r] h r c
    by (simp add: p m)
qed

text \<open>
  C2 as the claim states it fails: with "abc" cached by a native update and no \<open>modelValue\<close>
  bound, the render of a wrapper whose \<open>value\<close> input is unset resets the cached value to
  the sentinel and forwards no \<open>value\<close> at all.
\<close>

theorem C2_cached_value_counterexample:
  "modelProp ex_cfg = Some ''value''
   \<and> modelPropValue ex_cached = JStr ''abc''
   \<and> get_prop ex_props_unset MODEL_VALUE = EMPTY_PROP
   \<and> render ex_cfg ex_props_unset Undefined None ex_cached =
       Inr (\<lparr>modelPropValue = EMPTY_PROP, classes = [], effects = []\<rparr>,
            \<lparr>tag = ''my-input'',
             vprops = [(''ref'', ORef), (''class'', OClass []),
                       (''onClick'', OHandleClick Undefined),
                       (''onVnodeBeforeMount'', OBeforeMount)]\<rparr>)"
  by (simp add: render_def render_classes_def getComponentClasses_def getElementClasses_def
        ex_cfg_def ex_props_unset_def ex_cached_def prop_key_def get_prop_def
        propsToAdd_initial_def forward_props_def keys_of_def hasOwnProperty_def
        startsWith_def ARIA_PROP_PREFIX_def model_precedence_def truthy_str_def MODEL_VALUE_def)

section \<open>Clicks and router links\<close>

lemma map_of_navigationPayload:
  "map_of (navigationPayload props ev) key =
     (if key \<in> set (keys_of props) \<and> startsWith key ROUTER_PROP_PREFIX
         \<and> get_prop props key \<noteq> EMPTY_PROP
      then Some (PVal (get_prop props key))
      else if key = ''event'' then Some (PEvent ev) else None)"
  unfolding navigationPayload_def Let_def
  by (subst map_of_fold_obj_set) (auto simp: hasOwnProperty_keys)

lemma handleRouterLink_eq:
  "handleRouterLink props navManager ev st =
     st\<lparr>effects := effects st
          @ (if get_prop props ROUTER_LINK_VALUE = EMPTY_PROP then []
             else if navManager = None then [Warn NO_ROUTER_WARNING]
             else [Navigate (navigationPayload props ev)])\<rparr>"
  by (simp add: handleRouterLink_def split: option.splits)

lemma handleClick_no_handler:
  "handleClick call props navManager Undefined ev st =
     Inr (if defaultPrevented ev then st else handleRouterLink props navManager ev st)"
  by (simp add: handleClick_def)

text \<open>
  \<open>handleClick\<close>, the click handler a render builds around the caller's handler \<open>f\<close>
  (\<open>props.onClick\<close>), when it is called: it calls \<open>f\<close> first; after that it calls
  \<open>navigate\<close> if and only if the event's default is not prevented, \<open>routerLink\<close> is not the
  sentinel and there is a navigation host. The payload holds the event under \<open>event\<close> and,
  of the inputs, exactly those whose name starts with \<open>router\<close> and whose value is not the
  sentinel.
\<close>

lemma handleClick_navigation:
  "handleClick call props navManager (JFun f) ev st =
     Inr (st\<lparr>effects := effects st
            @ Called f ev
            # (if \<not> defaultPrevented (call f ev)
                  \<and> get_prop props ROUTER_LINK_VALUE \<noteq> EMPTY_PROP \<and> navManager \<noteq> None
               then [Navigate (navigationPayload props (call f ev))]
               else if \<not> defaultPrevented (call f ev)
                  \<and> get_prop props ROUTER_LINK_VALUE \<noteq> EMPTY_PROP
               then [Warn NO_ROUTER_WARNING]
               else [])\<rparr>)
   \<and> map_of (navigationPayload props (call f ev)) key =
       (if key \<in> set (keys_of props) \<and> startsWith key ROUTER_PROP_PREFIX
           \<and> get_prop props key \<noteq> EMPTY_PROP
        then Some (PVal (get_prop props key))
        else if key = ''event'' then Some (PEvent (call f ev)) else None)"
proof -
  have "handleClick call props navManager (JFun f) ev st =
     Inr (st\<lparr>effects := effects st
            @ Called f ev
            # (if \<not> defaultPrevented (call f ev)
                  \<and> get_prop props ROUTER_LINK_VALUE \<noteq> EMPTY_PROP \<and> navManager \<noteq> None
               then [Navigate (navigationPayload props (call f ev))]
               else if \<not> defaultPrevented (call f ev)
                  \<and> get_prop props ROUTER_LINK_VALUE \<noteq> EMPTY_PROP
               then [Warn NO_ROUTER_WARNING]
               else [])\<rparr>)"
    by (simp add: handleClick_def handleRouterLink_eq)
  then show ?thesis
    by (simp only: map_of_navigationPayload simp_thms)
qed

lemma handleClick_navigation_example:
  "handleClick ex_call ex_props_link (Some (NavManager 0)) (JFun 7) ex_click ex_fresh =
     Inr \<lparr>modelPropValue = EMPTY_PROP, classes = [],
          effects = [Called 7 ex_click,
                     Navigate [(''event'', PEvent ex_click),
                               (''routerLink'', PVal (JStr ''/home'')),
                               (''routerDirection'', PVal (JStr ''forward''))]]\<rparr>"
  by (simp add: handleClick_def handleRouterLink_def navigationPayload_def ex_props_link_def
        keys_of_def hasOwnProperty_def get_prop_def startsWith_def ROUTER_PROP_PREFIX_def
        ROUTER_LINK_VALUE_def ex_call_def ex_click_def ex_fresh_def)

text \<open>
  What the render hands on as \<open>onClick\<close>: the forwarding step, which runs after the
  render has put \<open>handleClick\<close> there, replaces it by the input \<open>onClick\<close> whenever that
  input is declared and set. So \<open>handleClick\<close> is the element's click listener only while
  there is no caller's handler for it to call.
\<close>

lemma render_onClick:
  assumes "render cfg props attrs_class ref st = Inr (st', vn)"
    and "\<not> (truthy_str (modelProp cfg) \<and> prop_key (modelProp cfg) = ''onClick'')"
  shows "map_of (vprops vn) ''onClick'' =
     (if ''onClick'' \<in> set (keys_of props) \<and> get_prop props ''onClick'' \<noteq> EMPTY_PROP
      then Some (OVal (get_prop props ''onClick''))
      else Some (OHandleClick (get_prop props ''onClick'')))"
proof -
  from render_Inr [OF assms(1)] obtain m where
    "vprops vn = model_precedence cfg props (get_prop props (prop_key (modelProp cfg)))
       (forward_props props (propsToAdd_initial m (get_prop props ''onClick'')))"
    by auto
  with assms(2) show ?thesis
    by (auto simp: map_of_model_precedence map_of_forward_props map_of_propsToAdd_initial
          startsWith_def ARIA_PROP_PREFIX_def)
qed

text \<open>
  C4 fails on the code. A wrapper whose element has a property \<open>onClick\<close>, used with
  \<open>routerLink\<close> "/home", a click handler (function 7) that prevents nothing, and a
  navigation host: the vnode's \<open>onClick\<close> is the caller's handler itself, a click runs it
  and nothing else, and \<open>navigate\<close> is not called; \<open>handleClick\<close>, called with the same
  event, would have navigated.
\<close>

theorem C4_click_handler_replaced:
  "get_prop ex_props_click ROUTER_LINK_VALUE = JStr ''/home''
   \<and> \<not> defaultPrevented (ex_call 7 ex_click)
   \<and> render ex_cfg_click ex_props_click Undefined None ex_fresh =
       Inr (ex_fresh\<lparr>modelPropValue := Undefined\<rparr>,
            \<lparr>tag = ''my-link'',
             vprops = [(''ref'', ORef), (''class'', OClass []), (''onClick'', OVal (JFun 7)),
                       (''onVnodeBeforeMount'', OBeforeMount),
                       (''routerLink'', OVal (JStr ''/home''))]\<rparr>)
   \<and> resolve_navManager (Some (NavManager 0)) (Some (NavManager 0)) = Some (NavManager 0)
   \<and> click_vnode ex_call ex_props_click (Some (NavManager 0))
         \<lparr>tag = ''my-link'',
          vprops = [(''ref'', ORef), (''class'', OClass []), (''onClick'', OVal (JFun 7)),
                    (''onVnodeBeforeMount'', OBeforeMount),
                    (''routerLink'', OVal (JStr ''/home''))]\<rparr>
         ex_click ex_fresh
       = Inr (ex_fresh\<lparr>effects := [Called 7 ex_click]\<rparr>)
   \<and> handleClick ex_call ex_props_click (Some (NavManager 0)) (JFun 7) ex_click ex_fresh
       = Inr (ex_fresh\<lparr>effects :=
                [Called 7 ex_click,
                 Navigate [(''event'', PEvent ex_click), (''routerLink'', PVal (JStr ''/home''))]]\<rparr>)"
proof -
  have l: "get_prop ex_props_click ROUTER_LINK_VALUE = JStr ''/home''"
    by (simp add: ex_props_click_def ROUTER_LINK_VALUE_def get_prop_def)
  have d: "\<not> defaultPrevented (ex_call 7 ex_click)"
    by (simp add: ex_call_def ex_click_def)
  have r: "render ex_cfg_click ex_props_click Undefined None ex_fresh =
       Inr (ex_fresh\<lparr>modelPropValue := Undefined\<rparr>,
            \<lparr>tag = ''my-link'',
             vprops = [(''ref'', ORef), (''class'', OClass []), (''onClick'', OVal (JFun 7)),
                       (''onVnodeBeforeMount'', OBeforeMount),
                       (''routerLink'', OVal (JStr ''/home''))]\<rparr>)"
    by (simp add: render_def render_classes_def getComponentClasses_def getElementClasses_def
          ex_cfg_click_def ex_props_click_def ex_fresh_def prop_key_def get_prop_def
          propsToAdd_initial_def forward_props_def keys_of_def hasOwnProperty_def
          startsWith_def ARIA_PROP_PREFIX_def model_precedence_def truthy_str_def)
  have c: "click_vnode ex_call ex_props_click (Some (NavManager 0))
         \<lparr>tag = ''my-link'',
          vprops = [(''ref'', ORef), (''class'', OClass []), (''onClick'', OVal (JFun 7)),
                    (''onVnodeBeforeMount'', OBeforeMount),
                    (''routerLink'', OVal (JStr ''/home''))]\<rparr>
         ex_click ex_fresh
       = Inr (ex_fresh\<lparr>effects := [Called 7 ex_click]\<rparr>)"
    by (simp add: click_vnode_def ex_fresh_def)
  have h: "handleClick ex_call ex_props_click (Some (NavManager 0)) (JFun 7) ex_click ex_fresh
       = Inr (ex_fresh\<lparr>effects :=
                [Called 7 ex_click,
                 Navigate [(''event'', PEvent ex_click), (''routerLink'', PVal (JStr ''/home''))]]\<rparr>)"
    by (simp add: handleClick_def handleRouterLink_def navigationPayload_def ex_props_click_def
          keys_of_def hasOwnProperty_def get_prop_def startsWith_def ROUTER_PROP_PREFIX_def
          ROUTER_LINK_VALUE_def ex_call_def ex_click_def ex_fresh_def)
  have n: "resolve_navManager (Some (NavManager 0)) (Some (NavManager 0)) = Some (NavManager 0)"
    by (simp add: resolve_navManager_def)
  from l d r n c h show ?thesis by (simp only: simp_thms)
qed

lemma clicks_without_router:
  assumes "get_prop props ROUTER_LINK_VALUE \<noteq> EMPTY_PROP"
  shows "clicks call props None Undefined evs st =
     Inr (st\<lparr>effects := effects st
            @ replicate (length (filter (\<lambda>e. \<not> defaultPrevented e) evs))
                (Warn NO_ROUTER_WARNING)\<rparr>)"
proof (induction evs arbitrary: st)
  case Nil
  show ?case by simp
next
  case (Cons ev evs)
  show ?case
  proof (cases "defaultPrevented ev")
    case True
    then show ?thesis
      by (simp add: handleClick_no_handler Cons.IH)
  next
    case False
    with assms show ?thesis
      by (simp add: handleClick_no_handler Cons.IH handleRouterLink_eq replicate_append_same)
  qed
qed

text \<open>
  C6, as the code has it. With \<open>routerLink\<close> set and no navigation host registered (the
  application context provides none, whatever \<open>inject\<close> would give), the interception
  neither navigates nor raises: it logs the warning, and nothing else; every such click
  logs it again, so a run of clicks leaves one warning for each click whose default was
  not prevented.
\<close>

theorem C6_missing_router_amended:
  assumes "get_prop props ROUTER_LINK_VALUE \<noteq> EMPTY_PROP"
  shows "handleRouterLink props (resolve_navManager None injected) ev st
        = st\<lparr>effects := effects st @ [Warn NO_ROUTER_WARNING]\<rparr>
    \<and> clicks call props (resolve_navManager None injected) Undefined evs st =
        Inr (st\<lparr>effects := effects st
               @ replicate (length (filter (\<lambda>e. \<not> defaultPrevented e) evs))
                   (Warn NO_ROUTER_WARNING)\<rparr>)"
  using assms by (simp add: resolve_navManager_def handleRouterLink_eq clicks_without_router)

theorem C6_missing_router_amended_witness:
  "get_prop ex_props_link ROUTER_LINK_VALUE \<noteq> EMPTY_PROP
   \<and> handleRouterLink ex_props_link (resolve_navManager None None) ex_click ex_fresh
       = ex_fresh\<lparr>effects := [Warn NO_ROUTER_WARNING]\<rparr>
   \<and> clicks ex_call ex_props_link (resolve_navManager None None) Undefined
         [ex_click, ex_click, ex_click] ex_fresh
       = Inr (ex_fresh\<lparr>effects := [Warn NO_ROUTER_WARNING, Warn NO_ROUTER_WARNING,
                                     Warn NO_ROUTER_WARNING]\<rparr>)"
proof -
  have h: "get_prop ex_props_link ROUTER_LINK_VALUE \<noteq> EMPTY_PROP"
    by (simp add: ex_props_link_def ROUTER_LINK_VALUE_def get_prop_def)
  have d: "\<not> defaultPrevented ex_click"
    by (simp add: ex_click_def)
  have e: "effects ex_fresh = []"
    by (simp add: ex_fresh_def)
  show ?thesis
    using C6_missing_router_amended
        [OF h, of None ex_click ex_fresh ex_call "[ex_click, ex_click, ex_click]"] h
    by (simp add: d e)
qed

text \<open>
  C6 as the claim states it fails: the warning is not logged once only. Two clicks on a
  wrapper with \<open>routerLink\<close> set and no navigation host leave two warnings.
\<close>

theorem C6_warning_per_click_counterexample:
  "get_prop ex_props_link ROUTER_LINK_VALUE = JStr ''/home''
   \<and> clicks ex_call ex_props_link (resolve_navManager None None) Undefined
         [ex_click, ex_click] ex_fresh
       = Inr \<lparr>modelPropValue = EMPTY_PROP, classes = [],
              effects = [Warn NO_ROUTER_WARNING, Warn NO_ROUTER_WARNING]\<rparr>"
  by (simp add: resolve_navManager_def handleClick_def handleRouterLink_def ex_props_link_def
        ROUTER_LINK_VALUE_def get_prop_def ex_click_def ex_fresh_def)

section \<open>Class lists\<close>

lemma indexOf_distinct_nth:
  "distinct xs \<Longrightarrow> i < length xs \<Longrightarrow> indexOf xs (xs ! i) = int i"
proof (induction xs arbitrary: i)
  case Nil
  then show ?case by simp
next
  case (Cons y ys)
  show ?case
  proof (cases i)
    case 0
    then show ?thesis by simp
  next
    case (Suc j)
    with Cons.prems have "ys ! j \<noteq> y" "indexOf ys (ys ! j) = int j"
      using Cons.IH [of j] by auto
    with Suc show ?thesis by (simp add: Let_def)
  qed
qed

text \<open>Two kept entries with the same class have the same index, its first: no class is
  kept twice.\<close>

lemma getElementClasses_distinct: "distinct (getElementClasses ref cs ds)"
proof -
  define self where "self = (case ref of None \<Rightarrow> [] | Some classList \<Rightarrow> classList) @ ds"
  define kept where
    "kept = filter (\<lambda>(i, c). c \<notin> set cs \<and> indexOf self c = int i) (enumerate 0 self)"
  have "distinct kept"
    by (simp add: kept_def distinct_map [symmetric])
  moreover have "inj_on snd (set kept)"
    by (rule inj_onI) (auto simp: kept_def)
  ultimately have "distinct (map snd kept)"
    by (simp add: distinct_map)
  then show ?thesis
    by (simp add: getElementClasses_def self_def kept_def Let_def)
qed

lemma getElementClasses_disjoint: "set (getElementClasses ref cs ds) \<inter> set cs = {}"
  by (auto simp: getElementClasses_def Let_def)

text \<open>A class list without duplicates and without the wrapper's own classes is merged
  into itself.\<close>

lemma getElementClasses_fixpoint:
  assumes "distinct m" and "set m \<inter> set cs = {}"
  shows "getElementClasses (Some m) cs [] = m"
proof -
  have "filter (\<lambda>(i, c). c \<notin> set cs \<and> indexOf m c = int i) (enumerate 0 m) = enumerate 0 m"
  proof (intro filter_True ballI)
    fix p assume "p \<in> set (enumerate 0 m)"
    then have i: "fst p < length m" and c: "snd p = m ! fst p"
      by (auto simp: in_set_enumerate_eq)
    from i c have "snd p \<in> set m" by simp
    with assms(2) have "snd p \<notin> set cs" by blast
    moreover from assms(1) i c have "indexOf m (snd p) = int (fst p)"
      by (simp add: indexOf_distinct_nth)
    ultimately show "case p of (i, c) \<Rightarrow> c \<notin> set cs \<and> indexOf m c = int i"
      by (simp add: case_prod_beta)
  qed
  then show ?thesis
    by (simp add: getElementClasses_def)
qed

lemma set_fold_set_add: "set (fold set_add vs s) = set vs \<union> set s"
  by (induction vs arbitrary: s) (auto simp: set_add_def)

lemma fold_set_add_absorb: "set vs \<subseteq> set s \<Longrightarrow> fold set_add vs s = s"
  by (induction vs arbitrary: s) (auto simp: set_add_def)

lemma fold_set_add_idem: "fold set_add vs (fold set_add vs s) = fold set_add vs s"
  by (rule fold_set_add_absorb) (simp add: set_fold_set_add)

text \<open>
  C5. The class step of a render that returns: the merged class list has no duplicates and
  none of the wrapper's own classes; the same step run again, on the variables the first
  run left and with the class attribute and the element's class list unchanged, leaves the
  variables as they are and gives the same merged list; and so does merging the merged
  list itself.
\<close>

theorem C5_class_reconciliation:
  assumes "render_classes attrs_class ref st = Inr (st', merged)"
  shows "distinct merged
    \<and> set merged \<inter> set (classes st') = {}
    \<and> render_classes attrs_class ref st' = Inr (st', merged)
    \<and> getElementClasses (Some merged) (classes st') [] = merged"
proof (cases "getComponentClasses attrs_class")
  case (Inl err)
  with assms show ?thesis
    by (simp add: render_classes_def)
next
  case (Inr vs)
  with assms have st': "st' = st\<lparr>classes := fold set_add vs (classes st)\<rparr>"
    and merged: "merged = getElementClasses ref (classes st') []"
    by (auto simp: render_classes_def Let_def)
  have d: "distinct merged"
    by (simp add: merged getElementClasses_distinct)
  have j: "set merged \<inter> set (classes st') = {}"
    by (simp add: merged getElementClasses_disjoint)
  have "st'\<lparr>classes := fold set_add vs (classes st')\<rparr> = st'"
    by (simp add: st' fold_set_add_idem)
  then have again: "render_classes attrs_class ref st' = Inr (st', merged)"
    using Inr by (simp add: render_classes_def Let_def merged)
  from d j again getElementClasses_fixpoint [OF d j] show ?thesis
    by simp
qed

theorem C5_class_reconciliation_witness:
  "render_classes (JStr ''big red'') (Some [''hydrated'', ''red'', ''hydrated'', ''focus''])
       ex_fresh
     = Inr (ex_fresh\<lparr>classes := [''big'', ''red'']\<rparr>, [''hydrated'', ''focus''])
   \<and> render_classes (JStr ''big red'') (Some [''hydrated'', ''red'', ''hydrated'', ''focus''])
       (ex_fresh\<lparr>classes := [''big'', ''red'']\<rparr>)
     = Inr (ex_fresh\<lparr>classes := [''big'', ''red'']\<rparr>, [''hydrated'', ''focus''])
   \<and> getElementClasses (Some [''hydrated'', ''focus'']) [''big'', ''red''] []
     = [''hydrated'', ''focus'']"
proof -
  have r: "render_classes (JStr ''big red'') (Some [''hydrated'', ''red'', ''hydrated'', ''focus''])
       ex_fresh
     = Inr (ex_fresh\<lparr>classes := [''big'', ''red'']\<rparr>, [''hydrated'', ''focus''])"
    by (simp add: render_classes_def getComponentClasses_def getElementClasses_def set_add_def
          ex_fresh_def)
  show ?thesis
    using C5_class_reconciliation [OF r] r by (simp add: ex_fresh_def)
qed

text \<open>
  C10, as the code has it. \<open>getComponentClasses\<close> gives the empty list for \<open>undefined\<close> and
  \<open>null\<close>; for a string it gives the pieces between single spaces, which put together
  with single spaces are the string again, so that no other white space separates
  classes; for every other value it raises a TypeError.
\<close>

theorem C10_component_classes_amended:
  "getComponentClasses Undefined = Inr []
   \<and> getComponentClasses Null = Inr []
   \<and> getComponentClasses (JStr s) = Inr (split (CHR '' '') s)
   \<and> join '' '' (split (CHR '' '') s) = s
   \<and> (\<forall>w \<in> set (split (CHR '' '') s). CHR '' '' \<notin> set w)
   \<and> (CHR '' '' \<notin> set s \<longrightarrow> getComponentClasses (JStr s) = Inr [s])
   \<and> ((\<exists>err. getComponentClasses cls = Inl err)
        = (cls \<noteq> Undefined \<and> cls \<noteq> Null \<and> (\<forall>t. cls \<noteq> JStr t)))
   \<and> ((getComponentClasses cls = Inl (TypeError ''classes.split is not a function''))
        = (cls \<noteq> Undefined \<and> cls \<noteq> Null \<and> (\<forall>t. cls \<noteq> JStr t)))"
proof -
  have "(\<exists>err. getComponentClasses cls = Inl err)
        = (cls \<noteq> Undefined \<and> cls \<noteq> Null \<and> (\<forall>t. cls \<noteq> JStr t))"
    by (cases cls) (simp_all add: getComponentClasses_def)
  moreover have "(getComponentClasses cls = Inl (TypeError ''classes.split is not a function''))
        = (cls \<noteq> Undefined \<and> cls \<noteq> Null \<and> (\<forall>t. cls \<noteq> JStr t))"
    by (cases cls) (simp_all add: getComponentClasses_def)
  moreover have "\<forall>w \<in> set (split (CHR '' '') s). CHR '' '' \<notin> set w"
    using split_pieces by blast
  ultimately show ?thesis
    by (simp add: getComponentClasses_def join_split split_no_sep)
qed

theorem C10_component_classes_amended_witness:
  "CHR '' '' \<notin> set [CHR ''a'', CHR 0x09, CHR ''b'']
   \<and> getComponentClasses (JStr [CHR ''a'', CHR 0x09, CHR ''b'']) = Inr [[CHR ''a'', CHR 0x09, CHR ''b'']]
   \<and> getComponentClasses (JStr ''a  b'') = Inr [''a'', [], ''b'']
   \<and> (\<exists>err. getComponentClasses (JNum 0) = Inl err)"
proof -
  have h: "CHR '' '' \<notin> set [CHR ''a'', CHR 0x09, CHR ''b'']"
    by simp
  have n: "JNum 0 \<noteq> Undefined \<and> JNum 0 \<noteq> Null \<and> (\<forall>t. JNum 0 \<noteq> JStr t)"
    by simp
  have two: "split (CHR '' '') ''a  b'' = [''a'', [], ''b'']"
    by simp
  show ?thesis
    using C10_component_classes_amended [of "[CHR ''a'', CHR 0x09, CHR ''b'']" "JNum 0"]
      C10_component_classes_amended [of "''a  b''" "JNum 0"] h n
    by (simp add: two)
qed

text \<open>
  C10 as the claim states it fails: the computation is not total. A class attribute
  \<open>false\<close> is neither \<open>undefined\<close> nor a string, and the call raises.
\<close>

theorem C10_not_total_counterexample:
  "getComponentClasses (JBool False) = Inl (TypeError ''classes.split is not a function'')"
  by (simp add: getComponentClasses_def)

section \<open>The generator\<close>

lemma getFilteredComponents_mset:
  "mset (getFilteredComponents exclude cmps) =
     filter_mset
       (\<lambda>c. tagName c \<notin> set (case exclude of None \<Rightarrow> [] | Some xs \<Rightarrow> xs) \<and> \<not> internal c)
       (mset cmps)"
  by (simp add: getFilteredComponents_def sortBy_def)

lemma getFilteredComponents_sorted: "sorted (map tagName (getFilteredComponents exclude cmps))"
  by (simp add: getFilteredComponents_def sortBy_def sorted_filter)

text \<open>When the package file can be read, the proxies file ends with the component
  definitions, one line each, in the order of the list.\<close>

lemma generateProxies_written:
  assumes "readPackageJson env root = Inr pkg"
  shows "\<exists>prefix. fst (generateProxies env fs components outputTarget root) =
     writeFile fs (proxiesFile outputTarget)
       (prefix @ NL
          @ join NL (map (\<lambda>cmpMeta. join '','' (createComponentDefinition cmpMeta)) components)
          @ NL)"
proof -
  have four: "join sep [a, b, c, d] @ e = (a @ sep @ b @ sep @ c) @ sep @ d @ e"
    for sep a b c d e :: string
    by simp
  show ?thesis
    unfolding generateProxies_def Let_def assms sum.case fst_conv four
    by (rule exI) (rule refl)
qed

lemma generateProxies_outcome:
  "snd (generateProxies env fs components outputTarget root) =
     (case readPackageJson env root of Inl err \<Rightarrow> Inl err | Inr pkg \<Rightarrow> Inr ())"
  by (simp add: generateProxies_def Let_def split: sum.splits)

lemma reactProxyOutput_files:
  "fst (reactProxyOutput env fs outputTarget cmps config) =
     fst (generateProxies env fs (getFilteredComponents (excludeComponents outputTarget) cmps)
            outputTarget (rootDir config))"
  by (simp add: reactProxyOutput_def Let_def split: prod.splits sum.splits)

lemma reactProxyOutput_outcome:
  "snd (reactProxyOutput env fs outputTarget cmps config) =
     (case readPackageJson env (rootDir config) of
        Inl err \<Rightarrow> Inl err
      | Inr pkg \<Rightarrow> copyResources env config outputTarget)"
proof (cases "readPackageJson env (rootDir config)")
  case (Inl err)
  then show ?thesis
    by (simp add: reactProxyOutput_def Let_def generateProxies_def)
next
  case (Inr pkg)
  then show ?thesis
    by (simp add: reactProxyOutput_def Let_def generateProxies_def split: sum.splits)
qed

text \<open>
  C7. Of any descriptors and any exclusion list the generator keeps exactly the
  descriptors that are neither internal nor excluded, each as often as it was given, in
  ascending order of their tag names; the definition of a component is one line, built
  from the tag name and its PascalCase form; and the proxies file the generator writes
  ends with these lines, in that order.
\<close>

theorem C7_generated_components:
  "mset (getFilteredComponents exclude cmps) =
     filter_mset
       (\<lambda>c. tagName c \<notin> set (case exclude of None \<Rightarrow> [] | Some xs \<Rightarrow> xs) \<and> \<not> internal c)
       (mset cmps)
   \<and> sorted (map tagName (getFilteredComponents exclude cmps))
   \<and> createComponentDefinition cmpMeta =
       [''export const '' @ dashToPascalCase (tagName cmpMeta)
          @ '' = /* #__PURE__ */createReactComponent<JSX.'' @ dashToPascalCase (tagName cmpMeta)
          @ '', HTML'' @ dashToPascalCase (tagName cmpMeta) @ ''Element>(window, '' @ QUOTE
          @ tagName cmpMeta @ QUOTE @ '', Import'' @ dashToPascalCase (tagName cmpMeta) @ '');'']
   \<and> (readPackageJson env (rootDir config) = Inr pkg \<longrightarrow>
        (\<exists>prefix.
           map_of (fst (reactProxyOutput env fs outputTarget cmps config)) (proxiesFile outputTarget)
             = Some (prefix @ NL
                 @ join NL (map (\<lambda>c. join '','' (createComponentDefinition c))
                     (getFilteredComponents (excludeComponents outputTarget) cmps))
                 @ NL)))"
proof -
  have line: "createComponentDefinition cmpMeta =
       [''export const '' @ dashToPascalCase (tagName cmpMeta)
          @ '' = /* #__PURE__ */createReactComponent<JSX.'' @ dashToPascalCase (tagName cmpMeta)
          @ '', HTML'' @ dashToPascalCase (tagName cmpMeta) @ ''Element>(window, '' @ QUOTE
          @ tagName cmpMeta @ QUOTE @ '', Import'' @ dashToPascalCase (tagName cmpMeta) @ '');'']"
    by (simp add: createComponentDefinition_def Let_def IMPORT_TYPES_def)
  have written: "\<exists>prefix.
           map_of (fst (reactProxyOutput env fs outputTarget cmps config)) (proxiesFile outputTarget)
             = Some (prefix @ NL
                 @ join NL (map (\<lambda>c. join '','' (createComponentDefinition c))
                     (getFilteredComponents (excludeComponents outputTarget) cmps))
                 @ NL)"
    if "readPackageJson env (rootDir config) = Inr pkg"
  proof -
    from generateProxies_written [OF that] obtain prefix where
      "fst (generateProxies env fs (getFilteredComponents (excludeComponents outputTarget) cmps)
              outputTarget (rootDir config)) =
       writeFile fs (proxiesFile outputTarget)
         (prefix @ NL
            @ join NL (map (\<lambda>c. join '','' (createComponentDefinition c))
                (getFilteredComponents (excludeComponents outputTarget) cmps))
            @ NL)"
      by blast
    then show ?thesis
      by (intro exI [of _ prefix])
        (simp only: reactProxyOutput_files writeFile_def map_of_obj_set fun_upd_same)
  qed
  from getFilteredComponents_mset [of exclude cmps] getFilteredComponents_sorted [of exclude cmps]
    line written
  show ?thesis by blast
qed

theorem C7_generated_components_witness:
  "readPackageJson ex_host (rootDir ex_config) = Inr \<lparr>types = ''dist/types/index.d.ts''\<rparr>
   \<and> getFilteredComponents (excludeComponents ex_outputTarget) ex_descriptors =
       [\<lparr>tagName = ''x-a'', internal = False\<rparr>, \<lparr>tagName = ''x-b'', internal = False\<rparr>]
   \<and> dashToPascalCase ''x-a'' = ''XA''
   \<and> dashToPascalCase ''x-b'' = ''XB''
   \<and> createComponentDefinition \<lparr>tagName = ''x-a'', internal = False\<rparr> =
       [''export const XA = /* #__PURE__ */createReactComponent<JSX.XA, HTMLXAElement>(window, ''
          @ QUOTE @ ''x-a'' @ QUOTE @ '', ImportXA);'']
   \<and> (\<exists>prefix.
         map_of (fst (reactProxyOutput ex_host [] ex_outputTarget ex_descriptors ex_config))
           ''out/components.ts''
         = Some (prefix @ NL
             @ join NL (map (\<lambda>c. join '','' (createComponentDefinition c))
                 [\<lparr>tagName = ''x-a'', internal = False\<rparr>, \<lparr>tagName = ''x-b'', internal = False\<rparr>])
             @ NL))"
proof -
  have h: "readPackageJson ex_host (rootDir ex_config) = Inr \<lparr>types = ''dist/types/index.d.ts''\<rparr>"
    by (simp add: ex_host_def)
  have f: "getFilteredComponents (excludeComponents ex_outputTarget) ex_descriptors =
       [\<lparr>tagName = ''x-a'', internal = False\<rparr>, \<lparr>tagName = ''x-b'', internal = False\<rparr>]"
    by (simp add: getFilteredComponents_def sortBy_def ex_outputTarget_def ex_descriptors_def)
  have a: "dashToPascalCase ''x-a'' = ''XA''"
    by (simp add: dashToPascalCase_def capitalize_def toUpperCase_char_def)
  have b: "dashToPascalCase ''x-b'' = ''XB''"
    by (simp add: dashToPascalCase_def capitalize_def toUpperCase_char_def)
  have p: "proxiesFile ex_outputTarget = ''out/components.ts''"
    by (simp add: ex_outputTarget_def)
  have l: "createComponentDefinition \<lparr>tagName = ''x-a'', internal = False\<rparr> =
       [''export const XA = /* #__PURE__ */createReactComponent<JSX.XA, HTMLXAElement>(window, ''
          @ QUOTE @ ''x-a'' @ QUOTE @ '', ImportXA);'']"
    using C7_generated_components
      [where exclude = "excludeComponents ex_outputTarget" and cmps = ex_descriptors
         and cmpMeta = "\<lparr>tagName = ''x-a'', internal = False\<rparr>" and env = ex_host
         and config = ex_config and pkg = "\<lparr>types = ''dist/types/index.d.ts''\<rparr>"
         and fs = "[]" and outputTarget = ex_outputTarget]
    by (simp add: a)
  have w: "\<exists>prefix.
         map_of (fst (reactProxyOutput ex_host [] ex_outputTarget ex_descriptors ex_config))
           (proxiesFile ex_outputTarget)
         = Some (prefix @ NL
             @ join NL (map (\<lambda>c. join '','' (createComponentDefinition c))
                 (getFilteredComponents (excludeComponents ex_outputTarget) ex_descriptors))
             @ NL)"
    using C7_generated_components
      [where exclude = "excludeComponents ex_outputTarget" and cmps = ex_descriptors
         and cmpMeta = "\<lparr>tagName = ''x-a'', internal = False\<rparr>" and env = ex_host
         and config = ex_config and pkg = "\<lparr>types = ''dist/types/index.d.ts''\<rparr>"
         and fs = "[]" and outputTarget = ex_outputTarget] h
    by blast
  from h f a b l w show ?thesis
    by (simp only: f p simp_thms)
qed

lemma reactProxyOutput_eq:
  "reactProxyOutput env fs outputTarget cmps config =
     (fst (generateProxies env fs (getFilteredComponents (excludeComponents outputTarget) cmps)
             outputTarget (rootDir config)),
      case readPackageJson env (rootDir config) of
        Inl err \<Rightarrow> Inl err
      | Inr pkg \<Rightarrow> copyResources env config outputTarget)"
  by (rule prod_eqI) (simp_all add: reactProxyOutput_files reactProxyOutput_outcome)

text \<open>
  C8, as the code has it. When \<open>config.sys\<close> or \<open>config.sys.copy\<close> is missing,
  \<open>copyResources\<close> raises the error "not properly initialized" and copies nothing, and the
  generator, which catches nothing, ends with an error. But \<open>copyResources\<close> is the last
  step: the proxies have been generated before, so the proxies file is written when the
  error is raised, and when the package file cannot be read the run has already ended
  with that error instead. When both are there, \<open>copyResources\<close> raises nothing and hands
  the two resource files to \<open>copy\<close>, whose result is the generator's.
\<close>

theorem C8_copy_capability_amended:
  "(sys config = None \<or> (\<exists>s. sys config = Some s \<and> copy s = None) \<longrightarrow>
      copyResources env config outputTarget = Inl (Error NOT_INITIALIZED)
      \<and> reactProxyOutput env fs outputTarget cmps config =
          (fst (generateProxies env fs
                  (getFilteredComponents (excludeComponents outputTarget) cmps)
                  outputTarget (rootDir config)),
           case readPackageJson env (rootDir config) of
             Inl err \<Rightarrow> Inl err
           | Inr pkg \<Rightarrow> Inl (Error NOT_INITIALIZED))
      \<and> (readPackageJson env (rootDir config) = Inr pkg \<longrightarrow>
           (\<exists>prefix.
              fst (reactProxyOutput env fs outputTarget cmps config) =
                writeFile fs (proxiesFile outputTarget)
                  (prefix @ NL
                     @ join NL (map (\<lambda>c. join '','' (createComponentDefinition c))
                         (getFilteredComponents (excludeComponents outputTarget) cmps))
                     @ NL)))
      \<and> (readPackageJson env (rootDir config) = Inl err \<longrightarrow>
           reactProxyOutput env fs outputTarget cmps config = (fs, Inl err)))
   \<and> (sys config = Some s \<and> copy s = Some cp \<longrightarrow>
      copyResources env config outputTarget =
        Inr (cp [\<lparr>src = path_join env [module_dirname env, ''../src/resources/'', ''utils.ts''],
                  dest = path_join env [path_dirname env (proxiesFile outputTarget), ''utils.ts''],
                  warn = False\<rparr>,
                 \<lparr>src = path_join env [module_dirname env, ''../src/resources/'', ''createComponent.tsx''],
                  dest = path_join env [path_dirname env (proxiesFile outputTarget), ''createComponent.tsx''],
                  warn = False\<rparr>])
      \<and> snd (reactProxyOutput env fs outputTarget cmps config) =
          (case readPackageJson env (rootDir config) of
             Inl err \<Rightarrow> Inl err
           | Inr pkg \<Rightarrow>
               Inr (cp [\<lparr>src = path_join env [module_dirname env, ''../src/resources/'', ''utils.ts''],
                         dest = path_join env [path_dirname env (proxiesFile outputTarget), ''utils.ts''],
                         warn = False\<rparr>,
                        \<lparr>src = path_join env [module_dirname env, ''../src/resources/'', ''createComponent.tsx''],
                         dest = path_join env [path_dirname env (proxiesFile outputTarget), ''createComponent.tsx''],
                         warn = False\<rparr>])))"
proof (intro conjI impI)
  assume missing: "sys config = None \<or> (\<exists>s. sys config = Some s \<and> copy s = None)"
  then show c: "copyResources env config outputTarget = Inl (Error NOT_INITIALIZED)"
    by (auto simp: copyResources_def Let_def)
  show "reactProxyOutput env fs outputTarget cmps config =
          (fst (generateProxies env fs
                  (getFilteredComponents (excludeComponents outputTarget) cmps)
                  outputTarget (rootDir config)),
           case readPackageJson env (rootDir config) of
             Inl err \<Rightarrow> Inl err
           | Inr pkg \<Rightarrow> Inl (Error NOT_INITIALIZED))"
    by (simp add: reactProxyOutput_eq c split: sum.splits)
next
  assume "sys config = None \<or> (\<exists>s. sys config = Some s \<and> copy s = None)"
    and read: "readPackageJson env (rootDir config) = Inr pkg"
  from generateProxies_written [OF read] obtain prefix where
    "fst (generateProxies env fs (getFilteredComponents (excludeComponents outputTarget) cmps)
            outputTarget (rootDir config)) =
       writeFile fs (proxiesFile outputTarget)
         (prefix @ NL
            @ join NL (map (\<lambda>c. join '','' (createComponentDefinition c))
                (getFilteredComponents (excludeComponents outputTarget) cmps))
            @ NL)"
    by blast
  then show "\<exists>prefix.
              fst (reactProxyOutput env fs outputTarget cmps config) =
                writeFile fs (proxiesFile outputTarget)
                  (prefix @ NL
                     @ join NL (map (\<lambda>c. join '','' (createComponentDefinition c))
                         (getFilteredComponents (excludeComponents outputTarget) cmps))
                     @ NL)"
    by (intro exI [of _ prefix]) (simp only: reactProxyOutput_files)
next
  assume "sys config = None \<or> (\<exists>s. sys config = Some s \<and> copy s = None)"
    and "readPackageJson env (rootDir config) = Inl err"
  then show "reactProxyOutput env fs outputTarget cmps config = (fs, Inl err)"
    by (simp add: reactProxyOutput_def Let_def generateProxies_def)
next
  assume capable: "sys config = Some s \<and> copy s = Some cp"
  then show c: "copyResources env config outputTarget =
        Inr (cp [\<lparr>src = path_join env [module_dirname env, ''../src/resources/'', ''utils.ts''],
                  dest = path_join env [path_dirname env (proxiesFile outputTarget), ''utils.ts''],
                  warn = False\<rparr>,
                 \<lparr>src = path_join env [module_dirname env, ''../src/resources/'', ''createComponent.tsx''],
                  dest = path_join env [path_dirname env (proxiesFile outputTarget), ''createComponent.tsx''],
                  warn = False\<rparr>])"
    by (simp add: copyResources_def Let_def)
  show "snd (reactProxyOutput env fs outputTarget cmps config) =
          (case readPackageJson env (rootDir config) of
             Inl err \<Rightarrow> Inl err
           | Inr pkg \<Rightarrow>
               Inr (cp [\<lparr>src = path_join env [module_dirname env, ''../src/resources/'', ''utils.ts''],
                         dest = path_join env [path_dirname env (proxiesFile outputTarget), ''utils.ts''],
                         warn = False\<rparr>,
                        \<lparr>src = path_join env [module_dirname env, ''../src/resources/'', ''createComponent.tsx''],
                         dest = path_join env [path_dirname env (proxiesFile outputTarget), ''createComponent.tsx''],
                         warn = False\<rparr>]))"
    by (simp add: reactProxyOutput_outcome c split: sum.splits)
qed

theorem C8_copy_capability_amended_witness:
  "sys ex_config_no_sys = None
   \<and> readPackageJson ex_host (rootDir ex_config_no_sys) = Inr \<lparr>types = ''dist/types/index.d.ts''\<rparr>
   \<and> copyResources ex_host ex_config_no_sys ex_outputTarget = Inl (Error NOT_INITIALIZED)
   \<and> snd (reactProxyOutput ex_host [] ex_outputTarget ex_descriptors ex_config_no_sys)
       = Inl (Error NOT_INITIALIZED)
   \<and> (\<exists>text. fst (reactProxyOutput ex_host [] ex_outputTarget ex_descriptors ex_config_no_sys)
         = [(''out/components.ts'', text)])
   \<and> sys ex_config = Some (CompilerSystem (Some (\<lambda>tasks. tasks)))
   \<and> copyResources ex_host ex_config ex_outputTarget =
       Inr [\<lparr>src = ''/lib/dist/../src/resources//utils.ts'', dest = ''out/utils.ts'', warn = False\<rparr>,
            \<lparr>src = ''/lib/dist/../src/resources//createComponent.tsx'',
             dest = ''out/createComponent.tsx'', warn = False\<rparr>]"
proof -
  have n: "sys ex_config_no_sys = None"
    by (simp add: ex_config_no_sys_def)
  have y: "sys ex_config = Some (CompilerSystem (Some (\<lambda>tasks. tasks)))
      \<and> copy (CompilerSystem (Some (\<lambda>tasks. tasks))) = Some (\<lambda>tasks. tasks)"
    by (simp add: ex_config_def)
  have r: "readPackageJson ex_host (rootDir ex_config_no_sys) = Inr \<lparr>types = ''dist/types/index.d.ts''\<rparr>"
    by (simp add: ex_host_def)
  have p: "proxiesFile ex_outputTarget = ''out/components.ts''"
    by (simp add: ex_outputTarget_def)
  note missing = C8_copy_capability_amended
        [where config = ex_config_no_sys and env = ex_host and outputTarget = ex_outputTarget
           and fs = "[]" and cmps = ex_descriptors
           and pkg = "\<lparr>types = ''dist/types/index.d.ts''\<rparr>"]
  from missing n have c: "copyResources ex_host ex_config_no_sys ex_outputTarget
      = Inl (Error NOT_INITIALIZED)"
    by blast
  from missing n have "reactProxyOutput ex_host [] ex_outputTarget ex_descriptors ex_config_no_sys =
          (fst (generateProxies ex_host []
                  (getFilteredComponents (excludeComponents ex_outputTarget) ex_descriptors)
                  ex_outputTarget (rootDir ex_config_no_sys)),
           case readPackageJson ex_host (rootDir ex_config_no_sys) of
             Inl err \<Rightarrow> Inl err
           | Inr pkg \<Rightarrow> Inl (Error NOT_INITIALIZED))"
    by blast
  then have o: "snd (reactProxyOutput ex_host [] ex_outputTarget ex_descriptors ex_config_no_sys)
       = Inl (Error NOT_INITIALIZED)"
    by (simp add: r)
  from missing n r obtain prefix where
    "fst (reactProxyOutput ex_host [] ex_outputTarget ex_descriptors ex_config_no_sys) =
       writeFile [] (proxiesFile ex_outputTarget)
         (prefix @ NL
            @ join NL (map (\<lambda>c. join '','' (createComponentDefinition c))
                (getFilteredComponents (excludeComponents ex_outputTarget) ex_descriptors))
            @ NL)"
    by blast
  then have w: "\<exists>text. fst (reactProxyOutput ex_host [] ex_outputTarget ex_descriptors ex_config_no_sys)
         = [(''out/components.ts'', text)]"
    by (simp only: writeFile_def obj_set.simps p) blast
  have k: "copyResources ex_host ex_config ex_outputTarget =
       Inr [\<lparr>src = ''/lib/dist/../src/resources//utils.ts'', dest = ''out/utils.ts'', warn = False\<rparr>,
            \<lparr>src = ''/lib/dist/../src/resources//createComponent.tsx'',
             dest = ''out/createComponent.tsx'', warn = False\<rparr>]"
    using C8_copy_capability_amended
        [where config = ex_config and s = "CompilerSystem (Some (\<lambda>tasks. tasks))"
           and cp = "\<lambda>tasks. tasks" and env = ex_host and outputTarget = ex_outputTarget
           and fs = "[]" and cmps = ex_descriptors] y
    by (simp add: ex_host_def ex_outputTarget_def)
  from n r c o w y k show ?thesis
    by (simp only: simp_thms)
qed

text \<open>
  C8 as the claim states it fails: the error is not surfaced at once, and the run is not
  aborted before it has written. With no \<open>sys\<close>, the run ends with the configuration
  error, and the file system holds the proxies file, written before the error was raised.
  And when the package file cannot be read, the run ends with that error, not with the
  configuration error.
\<close>

theorem C8_written_before_error_counterexample:
  "sys ex_config_no_sys = None
   \<and> snd (reactProxyOutput ex_host [] ex_outputTarget ex_descriptors ex_config_no_sys)
       = Inl (Error NOT_INITIALIZED)
   \<and> map fst (fst (reactProxyOutput ex_host [] ex_outputTarget ex_descriptors ex_config_no_sys))
       = [''out/components.ts'']
   \<and> reactProxyOutput ex_host_no_package [] ex_outputTarget ex_descriptors ex_config_no_sys
       = ([], Inl (Error ''package.json: no such file''))"
proof -
  have n: "sys ex_config_no_sys = None"
    by (simp add: ex_config_no_sys_def)
  have r: "readPackageJson ex_host (rootDir ex_config_no_sys) = Inr \<lparr>types = ''dist/types/index.d.ts''\<rparr>"
    by (simp add: ex_host_def)
  have c: "copyResources ex_host ex_config_no_sys ex_outputTarget = Inl (Error NOT_INITIALIZED)"
    by (simp add: copyResources_def Let_def n)
  have o: "snd (reactProxyOutput ex_host [] ex_outputTarget ex_descriptors ex_config_no_sys)
       = Inl (Error NOT_INITIALIZED)"
    by (simp add: reactProxyOutput_outcome r c)
  from generateProxies_written [OF r] obtain prefix where
    "fst (generateProxies ex_host []
            (getFilteredComponents (excludeComponents ex_outputTarget) ex_descriptors)
            ex_outputTarget (rootDir ex_config_no_sys)) =
       writeFile [] (proxiesFile ex_outputTarget)
         (prefix @ NL
            @ join NL (map (\<lambda>c. join '','' (createComponentDefinition c))
                (getFilteredComponents (excludeComponents ex_outputTarget) ex_descriptors))
            @ NL)"
    by blast
  then have w: "map fst (fst (reactProxyOutput ex_host [] ex_outputTarget ex_descriptors
        ex_config_no_sys)) = [''out/components.ts'']"
    by (simp add: reactProxyOutput_files writeFile_def ex_outputTarget_def)
  have f: "reactProxyOutput ex_host_no_package [] ex_outputTarget ex_descriptors ex_config_no_sys
       = ([], Inl (Error ''package.json: no such file''))"
    by (simp add: reactProxyOutput_def Let_def generateProxies_def ex_host_no_package_def)
  from n o w f show ?thesis
    by (simp only: simp_thms)
qed

end
